theory Spec2Isabelle
  imports Main "HOL-Library.Sublist"
begin

section \<open>The upgrade command of krew (cmd/krew/cmd/upgrade.go)\<close>

text \<open>
  The command body \<open>RunE\<close> is embedded as three functions that follow the source text:
  \<open>resolve\<close> (lines 43-61, the target names and the two flags), \<open>upgrade_loop\<close>
  (lines 63-92, the loop over the names, its body being \<open>loop_body\<close>) and \<open>RunE\<close>
  (the whole function, with the summary of lines 93-96).

  The packages the command calls (\<open>installation\<close>, \<open>indexscanner\<close>, \<open>internal\<close>) are
  collaborators: their functions are parameters, collected in the record \<open>collab\<close>, and
  they act on a file-system state of an arbitrary type \<open>'w\<close>.
\<close>

subsection \<open>Errors and effects\<close>

text \<open>
  A Go \<open>error\<close> value. The command observes an error in three ways only: it compares it
  with the sentinel \<open>installation.ErrIsAlreadyUpgraded\<close>, it asks \<open>os.IsNotExist\<close>, and it
  wraps or prints it. \<open>ErrNotExist\<close> stands for every error on which \<open>os.IsNotExist\<close>
  answers true, \<open>ErrOther\<close> for every other error of a collaborator; both carry their
  text. \<open>Errorf\<close>, \<open>Wrap\<close> and \<open>Wrapf\<close> are the constructors of \<open>github.com/pkg/errors\<close>,
  kept with their format string and arguments.
\<close>

datatype error =
    ErrIsAlreadyUpgraded
  | ErrNotExist string
  | ErrOther string
  | Errorf string "string list"
  | Wrap error string
  | Wrapf error string "string list"

fun os_IsNotExist :: "error \<Rightarrow> bool" where
  "os_IsNotExist (ErrNotExist _) = True"
| "os_IsNotExist _ = False"

text \<open>
  What the command does to the outside, in the order it does it: a call
  \<open>fmt.Fprintf(os.Stderr, format, args...)\<close>, recorded with its format string and its
  arguments, and a call \<open>internal.PrintSecurityNotice(name)\<close>.
\<close>

datatype arg = Str string | Err error

datatype effect =
    Fprintf_Stderr string "arg list"
  | PrintSecurityNotice string

text \<open>The format strings of the source, each ending in a newline.\<close>

definition fmt_upgrading :: string where
  "fmt_upgrading = ''Upgrading plugin: %s\<newline>''"

definition fmt_skipping :: string where
  "fmt_skipping = ''Skipping plugin %s, it is already on the newest version\<newline>''"

definition fmt_warning :: string where
  "fmt_warning = ''WARNING: failed to upgrade plugin %q, skipping (error: %v)\<newline>''"

definition fmt_upgraded :: string where
  "fmt_upgraded = ''Upgraded plugin: %s\<newline>''"

definition fmt_summary :: string where
  "fmt_summary = ''WARNING: Some plugins failed to upgrade, check logs above.\<newline>''"

subsection \<open>Collaborators and state\<close>

text \<open>The manifest \<open>index.Plugin\<close>; the command reads its field \<open>Name\<close> only.\<close>

record Plugin =
  Name :: string

text \<open>
  \<open>ListInstalledPlugins\<close> returns a map from plugin name to installed version, or an error.
  \<open>LoadPluginByName\<close> reads the manifest of a name. \<open>Upgrade\<close> returns \<open>nil\<close> (\<open>None\<close>) or
  an error, and the file system after the attempt.
\<close>

record 'w collab =
  ListInstalledPlugins :: "'w \<Rightarrow> error + (string \<rightharpoonup> string)"
  LoadPluginByName :: "'w \<Rightarrow> string \<Rightarrow> error + Plugin"
  Upgrade :: "'w \<Rightarrow> Plugin \<Rightarrow> error option \<times> 'w"

text \<open>
  The state the loop threads: the file system, what has been written and notified so far,
  and the local variable \<open>nErrors\<close> (a Go \<open>int\<close>; it is incremented at most once per
  element of a slice, so it cannot overflow, and is a \<open>nat\<close> here).
\<close>

record 'w state =
  world :: 'w
  out :: "effect list"
  nErrors :: nat

definition init :: "'w \<Rightarrow> 'w state" where
  "init w = \<lparr>world = w, out = [], nErrors = 0\<rparr>"

definition emit :: "effect \<Rightarrow> 'w state \<Rightarrow> 'w state" where
  "emit e s = s\<lparr>out := out s @ [e]\<rparr>"

text \<open>
  Go's \<open>for name := range installed\<close> visits every key of the map once, in an order the
  language leaves unspecified and that may differ from one run to the next. The order of
  a run is a parameter of the model; \<open>range_order m ks\<close> says that \<open>ks\<close> is an order in
  which the keys of \<open>m\<close> can be visited.
\<close>

definition range_order :: "(string \<rightharpoonup> string) \<Rightarrow> string list \<Rightarrow> bool" where
  "range_order m ks \<longleftrightarrow> distinct ks \<and> set ks = dom m"

subsection \<open>Lines 43-61: the names to process and the two flags\<close>

text \<open>
  The result is \<open>(pluginNames, ignoreUpgraded, skipErrors)\<close>, or the error returned at
  line 51. \<open>ks\<close> is the order in which this run's \<open>range\<close> visits the installed map.
\<close>

definition resolve ::
  "'w collab \<Rightarrow> 'w \<Rightarrow> string list \<Rightarrow> string list \<Rightarrow> error + (string list \<times> bool \<times> bool)" where
  "resolve c w args ks =
     (if length args = 0 then
        (case ListInstalledPlugins c w of
           Inl err \<Rightarrow> Inl (Wrap err ''failed to find all installed versions'')
         | Inr installed \<Rightarrow> Inr (ks, True, True))
      else Inr (args, False, False))"

subsection \<open>Lines 64-92: the loop\<close>

text \<open>How one iteration ends: \<open>continue\<close> (or the end of the body), or \<open>return err\<close>.\<close>

datatype 'w flow = Continue "'w state" | Return error "'w state"

text \<open>Lines 82-89, entered with \<open>err \<noteq> nil\<close>.\<close>

definition on_error :: "bool \<Rightarrow> string \<Rightarrow> error \<Rightarrow> 'w state \<Rightarrow> 'w flow" where
  "on_error skipErrors name err s =
     (let s1 = s\<lparr>nErrors := nErrors s + 1\<rparr> in
      if skipErrors then Continue (emit (Fprintf_Stderr fmt_warning [Str name, Err err]) s1)
      else Return (Wrapf err ''failed to upgrade plugin %q'' [name]) s1)"

text \<open>Lines 65-91, the body of the loop for one name.\<close>

definition loop_body :: "'w collab \<Rightarrow> bool \<Rightarrow> bool \<Rightarrow> string \<Rightarrow> 'w state \<Rightarrow> 'w flow" where
  "loop_body c ignoreUpgraded skipErrors name s =
     (case LoadPluginByName c (world s) name of
        Inl err \<Rightarrow>
          if \<not> os_IsNotExist err then
            Return (Wrapf err ''failed to load the plugin manifest for plugin %s'' [name]) s
          else if \<not> skipErrors then
            Return (Errorf ''plugin %q does not exist in the plugin index'' [name]) s
          else on_error skipErrors name err s
      | Inr plugin \<Rightarrow>
          (let s1 = emit (Fprintf_Stderr fmt_upgrading [Str name]) s;
               (err, w') = Upgrade c (world s1) plugin;
               s2 = s1\<lparr>world := w'\<rparr>
           in if ignoreUpgraded \<and> err = Some ErrIsAlreadyUpgraded then
                Continue (emit (Fprintf_Stderr fmt_skipping [Str name]) s2)
              else
                (case err of
                   Some e \<Rightarrow> on_error skipErrors name e s2
                 | None \<Rightarrow>
                     Continue (emit (PrintSecurityNotice (Name plugin))
                                (emit (Fprintf_Stderr fmt_upgraded [Str name]) s2)))))"

text \<open>
  Line 64: the loop. \<open>Some err\<close> is a \<open>return err\<close> from inside the loop, \<open>None\<close> is the
  loop running to its end.
\<close>

fun upgrade_loop ::
  "'w collab \<Rightarrow> bool \<Rightarrow> bool \<Rightarrow> string list \<Rightarrow> 'w state \<Rightarrow> error option \<times> 'w state" where
  "upgrade_loop c ignoreUpgraded skipErrors [] s = (None, s)"
| "upgrade_loop c ignoreUpgraded skipErrors (name # names) s =
     (case loop_body c ignoreUpgraded skipErrors name s of
        Return err s' \<Rightarrow> (Some err, s')
      | Continue s' \<Rightarrow> upgrade_loop c ignoreUpgraded skipErrors names s')"

subsection \<open>Lines 42-97: the command\<close>

text \<open>Lines 93-96, after the loop has run to its end.\<close>

definition summary :: "'w state \<Rightarrow> 'w state" where
  "summary s = (if nErrors s > 0 then emit (Fprintf_Stderr fmt_summary []) s else s)"

text \<open>
  What follows the loop: a \<open>return err\<close> from inside the loop leaves the function at
  once; otherwise lines 93-96 run and \<open>nil\<close> is returned.
\<close>

definition after_loop :: "error option \<times> 'w state \<Rightarrow> error option \<times> 'w state" where
  "after_loop r = (case r of (Some err, s) \<Rightarrow> (Some err, s) | (None, s) \<Rightarrow> (None, summary s))"

text \<open>
  The returned error (\<open>None\<close> is \<open>nil\<close>) and the final state. \<open>ks\<close> is the order in which
  this run's \<open>range\<close> visits the installed map; it is read only when \<open>args\<close> is empty.
\<close>

definition RunE ::
  "'w collab \<Rightarrow> 'w \<Rightarrow> string list \<Rightarrow> string list \<Rightarrow> error option \<times> 'w state" where
  "RunE c w args ks =
     (case resolve c w args ks of
        Inl err \<Rightarrow> (Some err, init w)
      | Inr (pluginNames, ignoreUpgraded, skipErrors) \<Rightarrow>
          after_loop (upgrade_loop c ignoreUpgraded skipErrors pluginNames (init w)))"

subsection \<open>Observations on the output\<close>

text \<open>
  The names carried by the lines written with a given format, in the order written.
\<close>

fun line_name :: "string \<Rightarrow> effect \<Rightarrow> string list" where
  "line_name fmt (Fprintf_Stderr f (Str n # as)) = (if f = fmt then [n] else [])"
| "line_name fmt _ = []"

definition names_of :: "string \<Rightarrow> effect list \<Rightarrow> string list" where
  "names_of fmt es = concat (map (line_name fmt) es)"

text \<open>What a successful upgrade of the name \<open>n\<close> with manifest \<open>p\<close> writes (lines 75, 90, 91).\<close>

definition upgraded_report :: "string \<times> Plugin \<Rightarrow> effect list" where
  "upgraded_report np =
     [Fprintf_Stderr fmt_upgrading [Str (fst np)],
      Fprintf_Stderr fmt_upgraded [Str (fst np)],
      PrintSecurityNotice (Name (snd np))]"

text \<open>
  The names on the outcome lines ("Upgraded plugin", "Skipping plugin", "WARNING: failed to
  upgrade plugin"), in the order written.
\<close>

fun outcome_name :: "effect \<Rightarrow> string list" where
  "outcome_name (Fprintf_Stderr f (Str n # as)) =
     (if f = fmt_upgraded \<or> f = fmt_skipping \<or> f = fmt_warning then [n] else [])"
| "outcome_name _ = []"

definition outcomes :: "effect list \<Rightarrow> string list" where
  "outcomes es = concat (map outcome_name es)"

text \<open>
  What the body of the loop does to the file system for one name: nothing when the lookup
  fails, and otherwise whatever \<open>Upgrade\<close> leaves (lines 65 and 76).
\<close>

definition attempt :: "'w collab \<Rightarrow> 'w \<Rightarrow> string \<Rightarrow> 'w" where
  "attempt c w name =
     (case LoadPluginByName c w name of
        Inl err \<Rightarrow> w
      | Inr plugin \<Rightarrow> snd (Upgrade c w plugin))"

subsection \<open>A concrete set of collaborators\<close>

text \<open>
  A small file system for running the command: the state is the list of the plugins
  already at their newest version. The manifest of \<open>missing\<close> does not exist, that of
  \<open>unreadable\<close> cannot be read, and the installation of \<open>broken\<close> fails.
\<close>

definition demo :: "string list \<Rightarrow> string list collab" where
  "demo installed =
     \<lparr>ListInstalledPlugins = (\<lambda>w. Inr (map_of (map (\<lambda>n. (n, ''v0.1.0'')) installed))),
      LoadPluginByName = (\<lambda>w n.
        if n = ''missing'' then Inl (ErrNotExist ''no such file or directory'')
        else if n = ''unreadable'' then Inl (ErrOther ''permission denied'')
        else Inr \<lparr>Name = n\<rparr>),
      Upgrade = (\<lambda>w p.
        if Name p \<in> set w then (Some ErrIsAlreadyUpgraded, w)
        else if Name p = ''broken'' then (Some (ErrOther ''download failed''), w)
        else (None, Name p # w))\<rparr>"

section \<open>Properties\<close>

subsection \<open>How the loop composes and what it writes\<close>

lemmas run_defs = demo_def loop_body_def on_error_def emit_def init_def after_loop_def
  summary_def RunE_def resolve_def

lemmas fmt_defs = fmt_upgrading_def fmt_upgraded_def fmt_skipping_def fmt_warning_def
  fmt_summary_def

lemma upgrade_loop_append:
  "upgrade_loop c i k (xs @ ys) s =
     (case upgrade_loop c i k xs s of
        (None, s1) \<Rightarrow> upgrade_loop c i k ys s1
      | (Some e, s1) \<Rightarrow> (Some e, s1))"
  by (induction xs arbitrary: s) (auto split: flow.splits)

lemma upgrade_loop_after_prefix:
  "upgrade_loop c i k pre s0 = (None, s1) \<Longrightarrow>
   upgrade_loop c i k (pre @ ys) s0 = upgrade_loop c i k ys s1"
  by (simp add: upgrade_loop_append)

lemma RunE_explicit:
  "args \<noteq> [] \<Longrightarrow> RunE c w args ks = after_loop (upgrade_loop c False False args (init w))"
  by (simp add: RunE_def resolve_def)

lemma RunE_all:
  "ListInstalledPlugins c w = Inr m \<Longrightarrow>
   RunE c w [] ks = after_loop (upgrade_loop c True True ks (init w))"
  by (simp add: RunE_def resolve_def)

lemma loop_body_explicit_Continue:
  "loop_body c False False n s = Continue s' \<Longrightarrow>
   \<exists>p. out s' = out s @ upgraded_report (n, p) \<and> nErrors s' = nErrors s"
  by (auto simp: loop_body_def on_error_def emit_def upgraded_report_def Let_def
           split: sum.splits if_splits prod.splits option.splits)

lemma explicit_success_out:
  "upgrade_loop c False False pre s = (None, s1) \<Longrightarrow>
   \<exists>ps. length ps = length pre \<and>
        out s1 = out s @ concat (map upgraded_report (zip pre ps)) \<and> nErrors s1 = nErrors s"
proof (induction pre arbitrary: s)
  case Nil
  then show ?case by simp
next
  case (Cons n pre)
  from Cons.prems obtain s' where b: "loop_body c False False n s = Continue s'"
    and l: "upgrade_loop c False False pre s' = (None, s1)"
    by (auto split: flow.splits)
  from loop_body_explicit_Continue [OF b] obtain p where
    p: "out s' = out s @ upgraded_report (n, p)" "nErrors s' = nErrors s" by blast
  from Cons.IH [OF l] obtain ps where
    ps: "length ps = length pre" "out s1 = out s' @ concat (map upgraded_report (zip pre ps))"
        "nErrors s1 = nErrors s'" by blast
  show ?case
    by (rule exI [of _ "p # ps"]) (simp add: p ps)
qed

lemma loop_body_appends:
  "loop_body c i k n s = Continue s' \<Longrightarrow>
   \<exists>xs. out s' = out s @ xs \<and> Fprintf_Stderr fmt_summary [] \<notin> set xs"
  by (auto simp: loop_body_def on_error_def emit_def Let_def
           split: sum.splits if_splits prod.splits option.splits)

lemma loop_body_Return_appends:
  "loop_body c i k n s = Return e s' \<Longrightarrow>
   \<exists>xs. out s' = out s @ xs \<and> Fprintf_Stderr fmt_summary [] \<notin> set xs"
  by (auto simp: loop_body_def on_error_def emit_def Let_def
           split: sum.splits if_splits prod.splits option.splits)

lemma upgrade_loop_appends:
  "upgrade_loop c i k ns s = (r, s') \<Longrightarrow>
   \<exists>xs. out s' = out s @ xs \<and> Fprintf_Stderr fmt_summary [] \<notin> set xs"
proof (induction ns arbitrary: s)
  case Nil
  then show ?case by simp
next
  case (Cons n ns)
  show ?case
  proof (cases "loop_body c i k n s")
    case (Continue s1)
    with Cons.prems have "upgrade_loop c i k ns s1 = (r, s')" by simp
    from Cons.IH [OF this] loop_body_appends [OF Continue] show ?thesis by auto
  next
    case (Return e s1)
    with Cons.prems have "s' = s1" by simp
    with loop_body_Return_appends [OF Return] show ?thesis by simp
  qed
qed

subsection \<open>Explicit names: the first failure ends the run\<close>

text \<open>
  Claim C1. The command is called with the names \<open>pre @ name # rest\<close>, and the names
  \<open>pre\<close> have been processed without a return, leaving the state \<open>s1\<close> (with both flags
  false this means each of them was upgraded). If the manifest of \<open>name\<close> does not exist,
  the command returns the error "plugin <name> does not exist in the plugin index" in the
  state \<open>s1\<close>. If the manifest is found and \<open>Upgrade\<close> returns any error, the sentinel
  \<open>ErrIsAlreadyUpgraded\<close> included, the command returns that error wrapped with "failed to
  upgrade plugin <name>", in the state \<open>s1\<close> extended by the line "Upgrading plugin: <name>",
  the file system left by the attempt and the counter incremented. In both cases the result
  is the same for every \<open>rest\<close>: no later name is processed. The output of \<open>s1\<close>, which
  the final output keeps or extends, is for each earlier name its lines "Upgrading plugin",
  "Upgraded plugin" and its security notice.
\<close>

theorem explicit_first_failure_aborts:
  assumes pre: "upgrade_loop c False False pre (init w) = (None, s1)"
  shows "(\<forall>e. LoadPluginByName c (world s1) name = Inl e \<longrightarrow> os_IsNotExist e \<longrightarrow>
            (\<forall>rest ks. RunE c w (pre @ name # rest) ks =
               (Some (Errorf ''plugin %q does not exist in the plugin index'' [name]), s1))) \<and>
         (\<forall>p e w'. LoadPluginByName c (world s1) name = Inr p \<longrightarrow>
            Upgrade c (world s1) p = (Some e, w') \<longrightarrow>
            (\<forall>rest ks. RunE c w (pre @ name # rest) ks =
               (Some (Wrapf e ''failed to upgrade plugin %q'' [name]),
                s1\<lparr>world := w', out := out s1 @ [Fprintf_Stderr fmt_upgrading [Str name]],
                   nErrors := nErrors s1 + 1\<rparr>))) \<and>
         (\<exists>ps. length ps = length pre \<and> out s1 = concat (map upgraded_report (zip pre ps)))"
proof (intro conjI allI impI)
  fix e rest ks
  assume "LoadPluginByName c (world s1) name = Inl e" "os_IsNotExist e"
  then have "loop_body c False False name s1 =
      Return (Errorf ''plugin %q does not exist in the plugin index'' [name]) s1"
    by (simp add: loop_body_def)
  then show "RunE c w (pre @ name # rest) ks =
      (Some (Errorf ''plugin %q does not exist in the plugin index'' [name]), s1)"
    by (simp add: RunE_explicit upgrade_loop_after_prefix [OF pre] after_loop_def)
next
  fix p e w' rest ks
  assume "LoadPluginByName c (world s1) name = Inr p" "Upgrade c (world s1) p = (Some e, w')"
  then have "loop_body c False False name s1 =
      Return (Wrapf e ''failed to upgrade plugin %q'' [name])
        (s1\<lparr>world := w', out := out s1 @ [Fprintf_Stderr fmt_upgrading [Str name]],
            nErrors := nErrors s1 + 1\<rparr>)"
    by (simp add: loop_body_def on_error_def emit_def)
  then show "RunE c w (pre @ name # rest) ks =
      (Some (Wrapf e ''failed to upgrade plugin %q'' [name]),
       s1\<lparr>world := w', out := out s1 @ [Fprintf_Stderr fmt_upgrading [Str name]],
          nErrors := nErrors s1 + 1\<rparr>)"
    by (simp add: RunE_explicit upgrade_loop_after_prefix [OF pre] after_loop_def)
next
  from explicit_success_out [OF pre]
  show "\<exists>ps. length ps = length pre \<and> out s1 = concat (map upgraded_report (zip pre ps))"
    by (auto simp: init_def)
qed

text \<open>
  The run \<open>upgrade foo missing baz\<close>, and the run \<open>upgrade foo foo baz\<close>, where the second
  \<open>foo\<close> is already at its newest version.
\<close>

theorem explicit_first_failure_aborts_witness:
  "upgrade_loop (demo []) False False [''foo''] (init []) =
     (None, \<lparr>world = [''foo''], out = upgraded_report (''foo'', \<lparr>Name = ''foo''\<rparr>), nErrors = 0\<rparr>) \<and>
   LoadPluginByName (demo []) [''foo''] ''missing'' = Inl (ErrNotExist ''no such file or directory'') \<and>
   RunE (demo []) [] [''foo'', ''missing'', ''baz''] [] =
     (Some (Errorf ''plugin %q does not exist in the plugin index'' [''missing'']),
      \<lparr>world = [''foo''], out = upgraded_report (''foo'', \<lparr>Name = ''foo''\<rparr>), nErrors = 0\<rparr>) \<and>
   LoadPluginByName (demo []) [''foo''] ''foo'' = Inr \<lparr>Name = ''foo''\<rparr> \<and>
   Upgrade (demo []) [''foo''] \<lparr>Name = ''foo''\<rparr> = (Some ErrIsAlreadyUpgraded, [''foo'']) \<and>
   RunE (demo []) [] [''foo'', ''foo'', ''baz''] [] =
     (Some (Wrapf ErrIsAlreadyUpgraded ''failed to upgrade plugin %q'' [''foo'']),
      \<lparr>world = [''foo''],
       out = upgraded_report (''foo'', \<lparr>Name = ''foo''\<rparr>) @ [Fprintf_Stderr fmt_upgrading [Str ''foo'']],
       nErrors = 1\<rparr>)"
proof -
  let ?S = "\<lparr>world = [''foo''], out = upgraded_report (''foo'', \<lparr>Name = ''foo''\<rparr>), nErrors = 0\<rparr>"
  have pre: "upgrade_loop (demo []) False False [''foo''] (init []) = (None, ?S)"
    by (simp add: demo_def loop_body_def emit_def init_def upgraded_report_def)
  have l1: "LoadPluginByName (demo []) (world ?S) ''missing'' = Inl (ErrNotExist ''no such file or directory'')"
    by (simp add: demo_def)
  have l2: "LoadPluginByName (demo []) (world ?S) ''foo'' = Inr \<lparr>Name = ''foo''\<rparr>"
    by (simp add: demo_def)
  have u2: "Upgrade (demo []) (world ?S) \<lparr>Name = ''foo''\<rparr> = (Some ErrIsAlreadyUpgraded, [''foo''])"
    by (simp add: demo_def)
  from explicit_first_failure_aborts [OF pre, of "''missing''"] l1
  have r1: "RunE (demo []) [] ([''foo''] @ ''missing'' # [''baz'']) [] =
     (Some (Errorf ''plugin %q does not exist in the plugin index'' [''missing'']), ?S)"
    by simp
  from explicit_first_failure_aborts [OF pre, of "''foo''"] l2 u2
  have r2: "RunE (demo []) [] ([''foo''] @ ''foo'' # [''baz'']) [] =
     (Some (Wrapf ErrIsAlreadyUpgraded ''failed to upgrade plugin %q'' [''foo'']),
      ?S\<lparr>world := [''foo''], out := out ?S @ [Fprintf_Stderr fmt_upgrading [Str ''foo'']],
         nErrors := nErrors ?S + 1\<rparr>)"
    by blast
  from pre l1 l2 u2 r1 r2 show ?thesis by simp
qed

subsection \<open>All plugins: a failure is counted and the loop goes on\<close>

text \<open>
  Claim C2. The command is called without arguments, the installed plugins are visited
  in the order \<open>pre @ name # rest\<close>, and the names \<open>pre\<close> have been processed without a
  return, leaving the state \<open>s1\<close>. If the manifest of \<open>name\<close> does not exist, or if it is
  found and \<open>Upgrade\<close> returns an error other than \<open>ErrIsAlreadyUpgraded\<close>, the body of the
  loop ends in a \<open>continue\<close> with the counter \<open>nErrors\<close> one higher, and the run is the
  loop over every name of \<open>rest\<close> from that state, followed by the end of the command.
\<close>

theorem all_plugins_failure_continues:
  assumes inst: "ListInstalledPlugins c w = Inr installed"
    and pre: "upgrade_loop c True True pre (init w) = (None, s1)"
  shows "(\<forall>e. LoadPluginByName c (world s1) name = Inl e \<longrightarrow> os_IsNotExist e \<longrightarrow>
            (\<exists>s2. loop_body c True True name s1 = Continue s2 \<and>
                  nErrors s2 = nErrors s1 + 1 \<and>
                  (\<forall>rest. RunE c w [] (pre @ name # rest) =
                            after_loop (upgrade_loop c True True rest s2)))) \<and>
         (\<forall>p e w'. LoadPluginByName c (world s1) name = Inr p \<longrightarrow>
            Upgrade c (world s1) p = (Some e, w') \<longrightarrow> e \<noteq> ErrIsAlreadyUpgraded \<longrightarrow>
            (\<exists>s2. loop_body c True True name s1 = Continue s2 \<and>
                  nErrors s2 = nErrors s1 + 1 \<and>
                  (\<forall>rest. RunE c w [] (pre @ name # rest) =
                            after_loop (upgrade_loop c True True rest s2))))"
proof (intro conjI allI impI)
  fix e
  assume "LoadPluginByName c (world s1) name = Inl e" "os_IsNotExist e"
  then have b: "loop_body c True True name s1 =
      Continue (emit (Fprintf_Stderr fmt_warning [Str name, Err e]) (s1\<lparr>nErrors := nErrors s1 + 1\<rparr>))"
    by (simp add: loop_body_def on_error_def)
  show "\<exists>s2. loop_body c True True name s1 = Continue s2 \<and> nErrors s2 = nErrors s1 + 1 \<and>
          (\<forall>rest. RunE c w [] (pre @ name # rest) = after_loop (upgrade_loop c True True rest s2))"
    by (rule exI, intro conjI allI, rule b)
       (simp_all add: emit_def RunE_all [OF inst] upgrade_loop_after_prefix [OF pre] b)
next
  fix p e w'
  assume "LoadPluginByName c (world s1) name = Inr p" "Upgrade c (world s1) p = (Some e, w')"
    "e \<noteq> ErrIsAlreadyUpgraded"
  then have b: "loop_body c True True name s1 =
      Continue (emit (Fprintf_Stderr fmt_warning [Str name, Err e])
        (s1\<lparr>out := out s1 @ [Fprintf_Stderr fmt_upgrading [Str name]], world := w',
            nErrors := nErrors s1 + 1\<rparr>))"
    by (simp add: loop_body_def on_error_def emit_def)
  show "\<exists>s2. loop_body c True True name s1 = Continue s2 \<and> nErrors s2 = nErrors s1 + 1 \<and>
          (\<forall>rest. RunE c w [] (pre @ name # rest) = after_loop (upgrade_loop c True True rest s2))"
    by (rule exI, intro conjI allI, rule b)
       (simp_all add: emit_def RunE_all [OF inst] upgrade_loop_after_prefix [OF pre] b)
qed

text \<open>
  The installed plugins \<open>a\<close>, \<open>missing\<close>, \<open>b\<close> visited in this order, and the installed
  plugins \<open>broken\<close>, \<open>b\<close>: in both runs \<open>b\<close> is upgraded after the failure, and the counter
  ends at one.
\<close>

theorem all_plugins_failure_continues_witness:
  "upgrade_loop (demo [''a'', ''missing'', ''b'']) True True [''a''] (init []) =
     (None, \<lparr>world = [''a''], out = upgraded_report (''a'', \<lparr>Name = ''a''\<rparr>), nErrors = 0\<rparr>) \<and>
   LoadPluginByName (demo [''a'', ''missing'', ''b'']) [''a''] ''missing'' =
     Inl (ErrNotExist ''no such file or directory'') \<and>
   os_IsNotExist (ErrNotExist ''no such file or directory'') \<and>
   (\<exists>s2. loop_body (demo [''a'', ''missing'', ''b'']) True True ''missing''
           \<lparr>world = [''a''], out = upgraded_report (''a'', \<lparr>Name = ''a''\<rparr>), nErrors = 0\<rparr> =
           Continue s2 \<and>
         nErrors s2 = 1 \<and>
         RunE (demo [''a'', ''missing'', ''b'']) [] [] [''a'', ''missing'', ''b''] =
           after_loop (upgrade_loop (demo [''a'', ''missing'', ''b'']) True True [''b''] s2)) \<and>
   nErrors (snd (RunE (demo [''a'', ''missing'', ''b'']) [] [] [''a'', ''missing'', ''b''])) = 1 \<and>
   names_of fmt_upgraded (out (snd (RunE (demo [''a'', ''missing'', ''b'']) [] []
     [''a'', ''missing'', ''b'']))) = [''a'', ''b''] \<and>
   upgrade_loop (demo [''broken'', ''b'']) True True [] (init []) = (None, init []) \<and>
   LoadPluginByName (demo [''broken'', ''b'']) [] ''broken'' = Inr \<lparr>Name = ''broken''\<rparr> \<and>
   Upgrade (demo [''broken'', ''b'']) [] \<lparr>Name = ''broken''\<rparr> =
     (Some (ErrOther ''download failed''), []) \<and>
   ErrOther ''download failed'' \<noteq> ErrIsAlreadyUpgraded \<and>
   (\<exists>s2. loop_body (demo [''broken'', ''b'']) True True ''broken'' (init []) = Continue s2 \<and>
         nErrors s2 = 1 \<and>
         RunE (demo [''broken'', ''b'']) [] [] [''broken'', ''b''] =
           after_loop (upgrade_loop (demo [''broken'', ''b'']) True True [''b''] s2)) \<and>
   nErrors (snd (RunE (demo [''broken'', ''b'']) [] [] [''broken'', ''b''])) = 1 \<and>
   names_of fmt_upgraded (out (snd (RunE (demo [''broken'', ''b'']) [] [] [''broken'', ''b'']))) =
     [''b'']"
proof -
  let ?c = "demo [''a'', ''missing'', ''b'']"
  let ?S = "\<lparr>world = [''a''], out = upgraded_report (''a'', \<lparr>Name = ''a''\<rparr>), nErrors = 0\<rparr>"
  have inst: "ListInstalledPlugins ?c [] =
      Inr (map_of (map (\<lambda>n. (n, ''v0.1.0'')) [''a'', ''missing'', ''b'']))"
    by (simp add: demo_def)
  have pre: "upgrade_loop ?c True True [''a''] (init []) = (None, ?S)"
    by (simp add: demo_def loop_body_def emit_def init_def upgraded_report_def)
  have l: "LoadPluginByName ?c (world ?S) ''missing'' = Inl (ErrNotExist ''no such file or directory'')"
    by (simp add: demo_def)
  from all_plugins_failure_continues [OF inst pre, of "''missing''"] l
  have "\<exists>s2. loop_body ?c True True ''missing'' ?S = Continue s2 \<and>
         nErrors s2 = nErrors ?S + 1 \<and>
         (\<forall>rest. RunE ?c [] [] ([''a''] @ ''missing'' # rest) =
            after_loop (upgrade_loop ?c True True rest s2))"
    by simp
  then obtain s2 where "loop_body ?c True True ''missing'' ?S = Continue s2"
    "nErrors s2 = nErrors ?S + 1"
    "RunE ?c [] [] ([''a''] @ ''missing'' # [''b'']) = after_loop (upgrade_loop ?c True True [''b''] s2)"
    by blast
  then have m1: "\<exists>s2. loop_body ?c True True ''missing'' ?S = Continue s2 \<and> nErrors s2 = 1 \<and>
     RunE ?c [] [] [''a'', ''missing'', ''b''] = after_loop (upgrade_loop ?c True True [''b''] s2)"
    by auto
  let ?d = "demo [''broken'', ''b'']"
  have inst': "ListInstalledPlugins ?d [] = Inr (map_of (map (\<lambda>n. (n, ''v0.1.0'')) [''broken'', ''b'']))"
    by (simp add: demo_def)
  have pre': "upgrade_loop ?d True True [] (init []) = (None, init [])"
    by simp
  have l': "LoadPluginByName ?d (world (init [])) ''broken'' = Inr \<lparr>Name = ''broken''\<rparr>"
    and u': "Upgrade ?d (world (init [])) \<lparr>Name = ''broken''\<rparr> = (Some (ErrOther ''download failed''), [])"
    and ne': "ErrOther ''download failed'' \<noteq> ErrIsAlreadyUpgraded"
    by (simp_all add: demo_def init_def)
  from all_plugins_failure_continues [OF inst' pre', of "''broken''"] l' u' ne'
  have "\<exists>s2. loop_body ?d True True ''broken'' (init []) = Continue s2 \<and>
         nErrors s2 = nErrors (init [] :: string list state) + 1 \<and>
         (\<forall>rest. RunE ?d [] [] ([] @ ''broken'' # rest) =
            after_loop (upgrade_loop ?d True True rest s2))"
    by blast
  then obtain s2' where "loop_body ?d True True ''broken'' (init []) = Continue s2'"
    "nErrors s2' = nErrors (init [] :: string list state) + 1"
    "RunE ?d [] [] ([] @ ''broken'' # [''b'']) = after_loop (upgrade_loop ?d True True [''b''] s2')"
    by blast
  then have m2: "\<exists>s2. loop_body ?d True True ''broken'' (init []) = Continue s2 \<and> nErrors s2 = 1 \<and>
     RunE ?d [] [] [''broken'', ''b''] = after_loop (upgrade_loop ?d True True [''b''] s2)"
    by (auto simp: init_def)
  have m3: "nErrors (snd (RunE ?d [] [] [''broken'', ''b''])) = 1"
    by (simp add: run_defs)
  have m4: "names_of fmt_upgraded (out (snd (RunE ?d [] [] [''broken'', ''b'']))) = [''b'']"
    by (simp add: run_defs names_of_def fmt_upgraded_def fmt_upgrading_def fmt_warning_def
          fmt_summary_def)
  have l'': "LoadPluginByName ?d [] ''broken'' = Inr \<lparr>Name = ''broken''\<rparr>"
    and u'': "Upgrade ?d [] \<lparr>Name = ''broken''\<rparr> = (Some (ErrOther ''download failed''), [])"
    by (simp_all add: demo_def)
  note m1
  moreover have "nErrors (snd (RunE ?c [] [] [''a'', ''missing'', ''b''])) = 1"
    by (simp add: run_defs)
  moreover have "names_of fmt_upgraded (out (snd (RunE ?c [] [] [''a'', ''missing'', ''b''])))
      = [''a'', ''b'']"
    by (simp add: run_defs names_of_def fmt_upgraded_def fmt_upgrading_def fmt_warning_def
          fmt_summary_def)
  ultimately show ?thesis using pre l pre' l'' u'' ne' m2 m3 m4 by simp
qed

subsection \<open>The two flags\<close>

text \<open>
  Claim C3. Without arguments, and whatever map of installed plugins the enumeration
  returns, the names are those of the map and both flags are true. With one argument or
  more, the names are the arguments and both flags are false. Whenever the flags are
  produced, each of them equals "no argument was given", so they are equal. (When the
  enumeration fails the command returns at line 51, before the flags are used.)
\<close>

theorem mode_flags_lockstep:
  "(args = [] \<longrightarrow> ListInstalledPlugins c w = Inr installed \<longrightarrow>
      resolve c w args ks = Inr (ks, True, True)) \<and>
   (args \<noteq> [] \<longrightarrow> resolve c w args ks = Inr (args, False, False)) \<and>
   (resolve c w args ks = Inr (names, ignoreUpgraded, skipErrors) \<longrightarrow>
      ignoreUpgraded = (args = []) \<and> skipErrors = (args = []))"
  by (auto simp: resolve_def split: sum.splits)

text \<open>The flags of \<open>upgrade\<close> and of \<open>upgrade foo\<close>, with \<open>a\<close> and \<open>b\<close> installed.\<close>

theorem mode_flags_lockstep_witness:
  "ListInstalledPlugins (demo [''a'', ''b'']) [] =
     Inr (map_of (map (\<lambda>n. (n, ''v0.1.0'')) [''a'', ''b''])) \<and>
   resolve (demo [''a'', ''b'']) [] [] [''b'', ''a''] = Inr ([''b'', ''a''], True, True) \<and>
   resolve (demo [''a'', ''b'']) [] [''foo''] [''b'', ''a''] = Inr ([''foo''], False, False)"
proof -
  have inst: "ListInstalledPlugins (demo [''a'', ''b'']) [] =
     Inr (map_of (map (\<lambda>n. (n, ''v0.1.0'')) [''a'', ''b'']))"
    by (simp add: demo_def)
  from mode_flags_lockstep [where args = "[]" and c = "demo [''a'', ''b'']" and w = "[]"
      and ks = "[''b'', ''a'']"
      and installed = "map_of (map (\<lambda>n. (n, ''v0.1.0'')) [''a'', ''b''])"] inst
  have "resolve (demo [''a'', ''b'']) [] [] [''b'', ''a''] = Inr ([''b'', ''a''], True, True)"
    by simp
  moreover from mode_flags_lockstep [where args = "[''foo'']" and c = "demo [''a'', ''b'']"
      and w = "[]" and ks = "[''b'', ''a'']"]
  have "resolve (demo [''a'', ''b'']) [] [''foo''] [''b'', ''a''] = Inr ([''foo''], False, False)"
    by simp
  ultimately show ?thesis using inst by simp
qed

subsection \<open>All plugins: a plugin already at its newest version\<close>

text \<open>
  Claim C4. The command is called without arguments, the names \<open>pre\<close> have been processed
  without a return, leaving the state \<open>s1\<close>, the manifest of \<open>name\<close> is found and \<open>Upgrade\<close>
  returns \<open>ErrIsAlreadyUpgraded\<close>. Then the body of the loop ends in a \<open>continue\<close>, having
  written "Upgrading plugin: <name>" and "Skipping plugin <name>, it is already on the
  newest version"; the counter \<open>nErrors\<close> is unchanged, and the run is the loop over
  \<open>rest\<close> from that state, followed by the end of the command.
\<close>

theorem all_plugins_already_current_skipped:
  assumes inst: "ListInstalledPlugins c w = Inr installed"
    and pre: "upgrade_loop c True True pre (init w) = (None, s1)"
    and load: "LoadPluginByName c (world s1) name = Inr p"
    and upg: "Upgrade c (world s1) p = (Some ErrIsAlreadyUpgraded, w')"
    and s2: "s2 = s1\<lparr>world := w',
                     out := out s1 @ [Fprintf_Stderr fmt_upgrading [Str name],
                                      Fprintf_Stderr fmt_skipping [Str name]]\<rparr>"
  shows "loop_body c True True name s1 = Continue s2 \<and> nErrors s2 = nErrors s1 \<and>
         RunE c w [] (pre @ name # rest) = after_loop (upgrade_loop c True True rest s2)"
proof -
  from load upg s2 have b: "loop_body c True True name s1 = Continue s2"
    by (simp add: loop_body_def emit_def)
  with s2 show ?thesis
    by (simp add: RunE_all [OF inst] upgrade_loop_after_prefix [OF pre])
qed

text \<open>The only installed plugin, \<open>bar\<close>, is already at its newest version.\<close>

theorem all_plugins_already_current_skipped_witness:
  "ListInstalledPlugins (demo [''bar'']) [''bar''] =
     Inr (map_of (map (\<lambda>n. (n, ''v0.1.0'')) [''bar''])) \<and>
   upgrade_loop (demo [''bar'']) True True [] (init [''bar'']) = (None, init [''bar'']) \<and>
   LoadPluginByName (demo [''bar'']) [''bar''] ''bar'' = Inr \<lparr>Name = ''bar''\<rparr> \<and>
   Upgrade (demo [''bar'']) [''bar''] \<lparr>Name = ''bar''\<rparr> = (Some ErrIsAlreadyUpgraded, [''bar'']) \<and>
   RunE (demo [''bar'']) [''bar''] [] [''bar''] =
     (None, \<lparr>world = [''bar''],
             out = [Fprintf_Stderr fmt_upgrading [Str ''bar''],
                    Fprintf_Stderr fmt_skipping [Str ''bar'']],
             nErrors = 0\<rparr>)"
proof -
  let ?c = "demo [''bar'']"
  let ?S2 = "\<lparr>world = [''bar''],
             out = [Fprintf_Stderr fmt_upgrading [Str ''bar''],
                    Fprintf_Stderr fmt_skipping [Str ''bar'']],
             nErrors = 0\<rparr>"
  have inst: "ListInstalledPlugins ?c [''bar''] = Inr (map_of (map (\<lambda>n. (n, ''v0.1.0'')) [''bar'']))"
    by (simp add: demo_def)
  have pre: "upgrade_loop ?c True True [] (init [''bar'']) = (None, init [''bar''])"
    by simp
  have l: "LoadPluginByName ?c (world (init [''bar''])) ''bar'' = Inr \<lparr>Name = ''bar''\<rparr>"
    by (simp add: demo_def)
  have u: "Upgrade ?c (world (init [''bar''])) \<lparr>Name = ''bar''\<rparr> = (Some ErrIsAlreadyUpgraded, [''bar''])"
    by (simp add: demo_def init_def)
  have s2: "?S2 = (init [''bar''])\<lparr>world := [''bar''],
                     out := out (init [''bar'']) @ [Fprintf_Stderr fmt_upgrading [Str ''bar''],
                                      Fprintf_Stderr fmt_skipping [Str ''bar'']]\<rparr>"
    by (simp add: init_def)
  from all_plugins_already_current_skipped [OF inst pre l u s2, of "[]"]
  have "RunE ?c [''bar''] [] [''bar''] = (None, ?S2)"
    by (simp add: after_loop_def summary_def)
  with inst pre l u show ?thesis by (simp add: init_def)
qed

subsection \<open>A manifest that cannot be read\<close>

text \<open>
  Claim C6. Whatever the two flags, if the names \<open>pre\<close> have been processed without a
  return, leaving the state \<open>s1\<close>, and the lookup of \<open>name\<close> fails with an error on which
  \<open>os.IsNotExist\<close> is false, the loop returns that error wrapped with "failed to load the
  plugin manifest for plugin <name>", in the state \<open>s1\<close>, whatever names follow; and so
  does the command, when these are its names and flags.
\<close>

theorem lookup_fault_always_fatal:
  assumes pre: "upgrade_loop c ignoreUpgraded skipErrors pre (init w) = (None, s1)"
    and load: "LoadPluginByName c (world s1) name = Inl e"
    and other: "\<not> os_IsNotExist e"
  shows "upgrade_loop c ignoreUpgraded skipErrors (pre @ name # rest) (init w) =
           (Some (Wrapf e ''failed to load the plugin manifest for plugin %s'' [name]), s1) \<and>
         (resolve c w args ks = Inr (pre @ name # rest, ignoreUpgraded, skipErrors) \<longrightarrow>
            RunE c w args ks =
              (Some (Wrapf e ''failed to load the plugin manifest for plugin %s'' [name]), s1))"
proof -
  from load other have "loop_body c ignoreUpgraded skipErrors name s1 =
      Return (Wrapf e ''failed to load the plugin manifest for plugin %s'' [name]) s1"
    by (simp add: loop_body_def)
  then have l: "upgrade_loop c ignoreUpgraded skipErrors (pre @ name # rest) (init w) =
           (Some (Wrapf e ''failed to load the plugin manifest for plugin %s'' [name]), s1)"
    by (simp add: upgrade_loop_after_prefix [OF pre])
  then show ?thesis by (simp add: RunE_def after_loop_def)
qed

text \<open>
  The names \<open>a\<close>, \<open>unreadable\<close>, \<open>b\<close>, once as the order of the installed plugins and
  once as arguments.
\<close>

theorem lookup_fault_always_fatal_witness:
  "upgrade_loop (demo []) True True [''a''] (init []) =
     (None, \<lparr>world = [''a''], out = upgraded_report (''a'', \<lparr>Name = ''a''\<rparr>), nErrors = 0\<rparr>) \<and>
   upgrade_loop (demo []) False False [''a''] (init []) =
     (None, \<lparr>world = [''a''], out = upgraded_report (''a'', \<lparr>Name = ''a''\<rparr>), nErrors = 0\<rparr>) \<and>
   LoadPluginByName (demo []) [''a''] ''unreadable'' = Inl (ErrOther ''permission denied'') \<and>
   \<not> os_IsNotExist (ErrOther ''permission denied'') \<and>
   RunE (demo []) [] [] [''a'', ''unreadable'', ''b''] =
     (Some (Wrapf (ErrOther ''permission denied'')
              ''failed to load the plugin manifest for plugin %s'' [''unreadable'']),
      \<lparr>world = [''a''], out = upgraded_report (''a'', \<lparr>Name = ''a''\<rparr>), nErrors = 0\<rparr>) \<and>
   RunE (demo []) [] [''a'', ''unreadable'', ''b''] [] =
     (Some (Wrapf (ErrOther ''permission denied'')
              ''failed to load the plugin manifest for plugin %s'' [''unreadable'']),
      \<lparr>world = [''a''], out = upgraded_report (''a'', \<lparr>Name = ''a''\<rparr>), nErrors = 0\<rparr>)"
proof -
  let ?S = "\<lparr>world = [''a''], out = upgraded_report (''a'', \<lparr>Name = ''a''\<rparr>), nErrors = 0\<rparr>"
  have pre1: "upgrade_loop (demo []) True True [''a''] (init []) = (None, ?S)"
    by (simp add: demo_def loop_body_def emit_def init_def upgraded_report_def)
  have pre2: "upgrade_loop (demo []) False False [''a''] (init []) = (None, ?S)"
    by (simp add: demo_def loop_body_def emit_def init_def upgraded_report_def)
  have l: "LoadPluginByName (demo []) (world ?S) ''unreadable'' = Inl (ErrOther ''permission denied'')"
    by (simp add: demo_def)
  have o: "\<not> os_IsNotExist (ErrOther ''permission denied'')" by simp
  have res1: "resolve (demo []) [] [] [''a'', ''unreadable'', ''b''] =
      Inr ([''a''] @ ''unreadable'' # [''b''], True, True)"
    by (simp add: resolve_def demo_def)
  have res2: "resolve (demo []) [] [''a'', ''unreadable'', ''b''] [] =
      Inr ([''a''] @ ''unreadable'' # [''b''], False, False)"
    by (simp add: resolve_def)
  from lookup_fault_always_fatal [OF pre1 l o, of "[''b'']" "[]" "[''a'', ''unreadable'', ''b'']"] res1
  have r1: "RunE (demo []) [] [] [''a'', ''unreadable'', ''b''] =
     (Some (Wrapf (ErrOther ''permission denied'')
              ''failed to load the plugin manifest for plugin %s'' [''unreadable'']), ?S)"
    by blast
  from lookup_fault_always_fatal [OF pre2 l o, of "[''b'']" "[''a'', ''unreadable'', ''b'']" "[]"] res2
  have r2: "RunE (demo []) [] [''a'', ''unreadable'', ''b''] [] =
     (Some (Wrapf (ErrOther ''permission denied'')
              ''failed to load the plugin manifest for plugin %s'' [''unreadable'']), ?S)"
    by blast
  from pre1 pre2 l o r1 r2 show ?thesis by simp
qed

subsection \<open>All plugins: a missing manifest is reported as a failed upgrade\<close>

text \<open>
  Claim C9. The command is called without arguments and the names \<open>pre\<close> have been
  processed without a return, leaving the state \<open>s1\<close>. If the manifest of \<open>name\<close> does not
  exist, the body writes one line, the warning "failed to upgrade plugin <name>, skipping"
  with the error of the lookup, and no line "Upgrading plugin"; it increments \<open>nErrors\<close>
  and continues. If the manifest is found and \<open>Upgrade\<close> fails with an error other than
  \<open>ErrIsAlreadyUpgraded\<close>, the body writes "Upgrading plugin: <name>" and then the same
  warning with the error of the upgrade, increments \<open>nErrors\<close> and continues. When \<open>name\<close>
  is the last name, the command then writes the summary line and returns \<open>nil\<close> in both
  cases.
\<close>

theorem all_plugins_not_found_counted_as_failure:
  assumes inst: "ListInstalledPlugins c w = Inr installed"
    and pre: "upgrade_loop c True True pre (init w) = (None, s1)"
  shows "(\<forall>e. LoadPluginByName c (world s1) name = Inl e \<longrightarrow> os_IsNotExist e \<longrightarrow>
            loop_body c True True name s1 =
              Continue (s1\<lparr>out := out s1 @ [Fprintf_Stderr fmt_warning [Str name, Err e]],
                          nErrors := nErrors s1 + 1\<rparr>) \<and>
            RunE c w [] (pre @ [name]) =
              (None, s1\<lparr>out := out s1 @ [Fprintf_Stderr fmt_warning [Str name, Err e],
                                          Fprintf_Stderr fmt_summary []],
                        nErrors := nErrors s1 + 1\<rparr>)) \<and>
         (\<forall>p e w'. LoadPluginByName c (world s1) name = Inr p \<longrightarrow>
            Upgrade c (world s1) p = (Some e, w') \<longrightarrow> e \<noteq> ErrIsAlreadyUpgraded \<longrightarrow>
            loop_body c True True name s1 =
              Continue (s1\<lparr>world := w',
                          out := out s1 @ [Fprintf_Stderr fmt_upgrading [Str name],
                                           Fprintf_Stderr fmt_warning [Str name, Err e]],
                          nErrors := nErrors s1 + 1\<rparr>) \<and>
            RunE c w [] (pre @ [name]) =
              (None, s1\<lparr>world := w',
                        out := out s1 @ [Fprintf_Stderr fmt_upgrading [Str name],
                                         Fprintf_Stderr fmt_warning [Str name, Err e],
                                         Fprintf_Stderr fmt_summary []],
                        nErrors := nErrors s1 + 1\<rparr>))"
  by (simp add: RunE_all [OF inst] upgrade_loop_after_prefix [OF pre] loop_body_def
        on_error_def emit_def after_loop_def summary_def)

text \<open>
  The last installed plugin has no manifest, or its installation fails, after \<open>a\<close> has
  been upgraded.
\<close>

theorem all_plugins_not_found_counted_as_failure_witness:
  "ListInstalledPlugins (demo [''a'', ''missing'']) [] =
     Inr (map_of (map (\<lambda>n. (n, ''v0.1.0'')) [''a'', ''missing''])) \<and>
   upgrade_loop (demo [''a'', ''missing'']) True True [''a''] (init []) =
     (None, \<lparr>world = [''a''], out = upgraded_report (''a'', \<lparr>Name = ''a''\<rparr>), nErrors = 0\<rparr>) \<and>
   LoadPluginByName (demo [''a'', ''missing'']) [''a''] ''missing'' =
     Inl (ErrNotExist ''no such file or directory'') \<and>
   RunE (demo [''a'', ''missing'']) [] [] [''a'', ''missing''] =
     (None, \<lparr>world = [''a''],
             out = upgraded_report (''a'', \<lparr>Name = ''a''\<rparr>) @
                   [Fprintf_Stderr fmt_warning
                      [Str ''missing'', Err (ErrNotExist ''no such file or directory'')],
                    Fprintf_Stderr fmt_summary []],
             nErrors = 1\<rparr>) \<and>
   ListInstalledPlugins (demo [''a'', ''broken'']) [] =
     Inr (map_of (map (\<lambda>n. (n, ''v0.1.0'')) [''a'', ''broken''])) \<and>
   upgrade_loop (demo [''a'', ''broken'']) True True [''a''] (init []) =
     (None, \<lparr>world = [''a''], out = upgraded_report (''a'', \<lparr>Name = ''a''\<rparr>), nErrors = 0\<rparr>) \<and>
   LoadPluginByName (demo [''a'', ''broken'']) [''a''] ''broken'' = Inr \<lparr>Name = ''broken''\<rparr> \<and>
   Upgrade (demo [''a'', ''broken'']) [''a''] \<lparr>Name = ''broken''\<rparr> =
     (Some (ErrOther ''download failed''), [''a'']) \<and>
   RunE (demo [''a'', ''broken'']) [] [] [''a'', ''broken''] =
     (None, \<lparr>world = [''a''],
             out = upgraded_report (''a'', \<lparr>Name = ''a''\<rparr>) @
                   [Fprintf_Stderr fmt_upgrading [Str ''broken''],
                    Fprintf_Stderr fmt_warning [Str ''broken'', Err (ErrOther ''download failed'')],
                    Fprintf_Stderr fmt_summary []],
             nErrors = 1\<rparr>)"
proof -
  let ?c1 = "demo [''a'', ''missing'']"
  let ?c2 = "demo [''a'', ''broken'']"
  let ?S = "\<lparr>world = [''a''], out = upgraded_report (''a'', \<lparr>Name = ''a''\<rparr>), nErrors = 0\<rparr>"
  have i1: "ListInstalledPlugins ?c1 [] = Inr (map_of (map (\<lambda>n. (n, ''v0.1.0'')) [''a'', ''missing'']))"
    and i2: "ListInstalledPlugins ?c2 [] = Inr (map_of (map (\<lambda>n. (n, ''v0.1.0'')) [''a'', ''broken'']))"
    by (simp_all add: demo_def)
  have p1: "upgrade_loop ?c1 True True [''a''] (init []) = (None, ?S)"
    and p2: "upgrade_loop ?c2 True True [''a''] (init []) = (None, ?S)"
    by (simp_all add: demo_def loop_body_def emit_def init_def upgraded_report_def)
  have l1: "LoadPluginByName ?c1 (world ?S) ''missing'' = Inl (ErrNotExist ''no such file or directory'')"
    and l2: "LoadPluginByName ?c2 (world ?S) ''broken'' = Inr \<lparr>Name = ''broken''\<rparr>"
    and u2: "Upgrade ?c2 (world ?S) \<lparr>Name = ''broken''\<rparr> = (Some (ErrOther ''download failed''), [''a''])"
    by (simp_all add: demo_def)
  from all_plugins_not_found_counted_as_failure [OF i1 p1, of "''missing''"] l1
  have r1: "RunE ?c1 [] [] ([''a''] @ [''missing'']) =
     (None, ?S\<lparr>out := out ?S @ [Fprintf_Stderr fmt_warning
                      [Str ''missing'', Err (ErrNotExist ''no such file or directory'')],
                    Fprintf_Stderr fmt_summary []],
               nErrors := nErrors ?S + 1\<rparr>)"
    by simp
  from all_plugins_not_found_counted_as_failure [OF i2 p2, of "''broken''"] l2 u2
  have r2: "RunE ?c2 [] [] ([''a''] @ [''broken'']) =
     (None, ?S\<lparr>world := [''a''],
               out := out ?S @ [Fprintf_Stderr fmt_upgrading [Str ''broken''],
                    Fprintf_Stderr fmt_warning [Str ''broken'', Err (ErrOther ''download failed'')],
                    Fprintf_Stderr fmt_summary []],
               nErrors := nErrors ?S + 1\<rparr>)"
    by simp
  from i1 i2 p1 p2 l1 l2 u2 r1 r2 show ?thesis by simp
qed

subsection \<open>The summary line\<close>

lemma after_loop_summary_line:
  assumes "after_loop (r', s') = (r, s)" and "Fprintf_Stderr fmt_summary [] \<notin> set (out s')"
  shows "Fprintf_Stderr fmt_summary [] \<in> set (out s) \<longleftrightarrow> r = None \<and> nErrors s > 0"
  using assms by (cases r') (auto simp: after_loop_def summary_def emit_def split: if_splits)

text \<open>
  Claim C5. In the final state of any run, the line "WARNING: Some plugins failed to
  upgrade, check logs above." has been written if and only if the command returned \<open>nil\<close>
  and \<open>nErrors\<close> is positive. A run that returns an error can have a positive \<open>nErrors\<close>
  and still no summary line: \<open>upgrade broken\<close> is one.
\<close>

theorem summary_iff_failures_and_no_abort:
  "(RunE c w args ks = (r, s) \<longrightarrow>
      (Fprintf_Stderr fmt_summary [] \<in> set (out s) \<longleftrightarrow> r = None \<and> nErrors s > 0)) \<and>
   (\<exists>err s'. RunE (demo []) [] [''broken''] [] = (Some err, s') \<and> nErrors s' > 0 \<and>
        Fprintf_Stderr fmt_summary [] \<notin> set (out s'))"
proof (intro conjI impI)
  assume run: "RunE c w args ks = (r, s)"
  show "Fprintf_Stderr fmt_summary [] \<in> set (out s) \<longleftrightarrow> r = None \<and> nErrors s > 0"
  proof (cases "resolve c w args ks")
    case (Inl err)
    with run show ?thesis by (auto simp: RunE_def init_def)
  next
    case (Inr t)
    obtain names i k where t: "t = (names, i, k)" by (cases t)
    obtain r' s' where l: "upgrade_loop c i k names (init w) = (r', s')" by force
    from upgrade_loop_appends [OF l]
    have "Fprintf_Stderr fmt_summary [] \<notin> set (out s')" by (auto simp: init_def)
    moreover from run Inr t l have "after_loop (r', s') = (r, s)" by (simp add: RunE_def)
    ultimately show ?thesis by (rule after_loop_summary_line [rotated])
  qed
next
  show "\<exists>err s'. RunE (demo []) [] [''broken''] [] = (Some err, s') \<and> nErrors s' > 0 \<and>
        Fprintf_Stderr fmt_summary [] \<notin> set (out s')"
    by (simp add: RunE_def resolve_def after_loop_def demo_def loop_body_def on_error_def
          emit_def init_def)
qed

text \<open>
  Two runs without arguments in which the installation of \<open>broken\<close> fails: one runs to
  its end and writes the summary; in the other the manifest of the next plugin cannot be
  read, and the command returns with \<open>nErrors = 1\<close> and no summary.
\<close>

theorem summary_iff_failures_and_no_abort_witness:
  "RunE (demo [''broken'', ''a'']) [] [] [''broken'', ''a''] =
     (None, \<lparr>world = [''a''],
             out = [Fprintf_Stderr fmt_upgrading [Str ''broken''],
                    Fprintf_Stderr fmt_warning [Str ''broken'', Err (ErrOther ''download failed'')],
                    Fprintf_Stderr fmt_upgrading [Str ''a''],
                    Fprintf_Stderr fmt_upgraded [Str ''a''],
                    PrintSecurityNotice ''a'',
                    Fprintf_Stderr fmt_summary []],
             nErrors = 1\<rparr>) \<and>
   Fprintf_Stderr fmt_summary [] \<in> set (out (snd (RunE (demo [''broken'', ''a'']) [] []
      [''broken'', ''a'']))) \<and>
   RunE (demo [''broken'', ''unreadable'']) [] [] [''broken'', ''unreadable''] =
     (Some (Wrapf (ErrOther ''permission denied'')
              ''failed to load the plugin manifest for plugin %s'' [''unreadable'']),
      \<lparr>world = [],
       out = [Fprintf_Stderr fmt_upgrading [Str ''broken''],
              Fprintf_Stderr fmt_warning [Str ''broken'', Err (ErrOther ''download failed'')]],
       nErrors = 1\<rparr>) \<and>
   Fprintf_Stderr fmt_summary [] \<notin> set (out (snd (RunE (demo [''broken'', ''unreadable'']) [] []
      [''broken'', ''unreadable''])))"
proof -
  let ?S1 = "\<lparr>world = [''a''],
             out = [Fprintf_Stderr fmt_upgrading [Str ''broken''],
                    Fprintf_Stderr fmt_warning [Str ''broken'', Err (ErrOther ''download failed'')],
                    Fprintf_Stderr fmt_upgrading [Str ''a''],
                    Fprintf_Stderr fmt_upgraded [Str ''a''],
                    PrintSecurityNotice ''a'',
                    Fprintf_Stderr fmt_summary []],
             nErrors = 1\<rparr>"
  let ?S2 = "\<lparr>world = [],
       out = [Fprintf_Stderr fmt_upgrading [Str ''broken''],
              Fprintf_Stderr fmt_warning [Str ''broken'', Err (ErrOther ''download failed'')]],
       nErrors = 1\<rparr>"
  let ?E = "Wrapf (ErrOther ''permission denied'')
              ''failed to load the plugin manifest for plugin %s'' [''unreadable'']"
  have r1: "RunE (demo [''broken'', ''a'']) [] [] [''broken'', ''a''] = (None, ?S1)"
    by (simp add: run_defs)
  have r2: "RunE (demo [''broken'', ''unreadable'']) [] [] [''broken'', ''unreadable''] =
      (Some ?E, ?S2)"
    by (simp add: run_defs)
  from summary_iff_failures_and_no_abort
    [of "demo [''broken'', ''a'']" "[]" "[]" "[''broken'', ''a'']" None ?S1] r1
  have "Fprintf_Stderr fmt_summary [] \<in> set (out ?S1)"
    by simp
  moreover from summary_iff_failures_and_no_abort
    [of "demo [''broken'', ''unreadable'']" "[]" "[]" "[''broken'', ''unreadable'']" "Some ?E" ?S2] r2
  have "Fprintf_Stderr fmt_summary [] \<notin> set (out ?S2)"
    by simp
  ultimately show ?thesis by (simp only: r1 r2 snd_conv simp_thms)
qed

subsection \<open>All plugins: what the command returns\<close>

lemma all_plugins_return_is_lookup_fault:
  "upgrade_loop c True True ns s = (Some err, s') \<Longrightarrow>
   \<exists>n e w'. n \<in> set ns \<and> LoadPluginByName c w' n = Inl e \<and> \<not> os_IsNotExist e \<and>
      err = Wrapf e ''failed to load the plugin manifest for plugin %s'' [n]"
proof (induction ns arbitrary: s)
  case Nil
  then show ?case by simp
next
  case (Cons n ns)
  show ?case
  proof (cases "loop_body c True True n s")
    case (Continue s1)
    with Cons.prems have "upgrade_loop c True True ns s1 = (Some err, s')" by simp
    from Cons.IH [OF this] show ?thesis by auto
  next
    case (Return e0 s1)
    with Cons.prems have "e0 = err" by simp
    with Return have "\<exists>e. LoadPluginByName c (world s) n = Inl e \<and> \<not> os_IsNotExist e \<and>
        err = Wrapf e ''failed to load the plugin manifest for plugin %s'' [n]"
      by (auto simp: loop_body_def on_error_def Let_def
               split: sum.splits if_splits prod.splits option.splits)
    then show ?thesis by auto
  qed
qed

text \<open>
  Claim C7. The command is called without arguments and the enumeration succeeds. If
  the loop runs to its end, the command returns \<open>nil\<close>, whatever the value of \<open>nErrors\<close>.
  If the command returns an error, that error is a failed lookup of one of the names,
  with an error on which \<open>os.IsNotExist\<close> is false: a missing manifest or a failed
  upgrade is never returned.
\<close>

theorem all_plugins_tolerated_failures_return_nil:
  assumes inst: "ListInstalledPlugins c w = Inr installed"
  shows "(\<forall>s. upgrade_loop c True True ks (init w) = (None, s) \<longrightarrow>
            RunE c w [] ks = (None, summary s)) \<and>
         (\<forall>err. fst (RunE c w [] ks) = Some err \<longrightarrow>
            (\<exists>n e w'. n \<in> set ks \<and> LoadPluginByName c w' n = Inl e \<and> \<not> os_IsNotExist e \<and>
               err = Wrapf e ''failed to load the plugin manifest for plugin %s'' [n]))"
proof (intro conjI allI impI)
  fix s
  assume "upgrade_loop c True True ks (init w) = (None, s)"
  then show "RunE c w [] ks = (None, summary s)"
    by (simp add: RunE_all [OF inst] after_loop_def)
next
  fix err
  assume r: "fst (RunE c w [] ks) = Some err"
  obtain r' s' where l: "upgrade_loop c True True ks (init w) = (r', s')" by force
  with r have "r' = Some err"
    by (cases r') (simp_all add: RunE_all [OF inst] after_loop_def)
  with l all_plugins_return_is_lookup_fault
  show "\<exists>n e w'. n \<in> set ks \<and> LoadPluginByName c w' n = Inl e \<and> \<not> os_IsNotExist e \<and>
          err = Wrapf e ''failed to load the plugin manifest for plugin %s'' [n]"
    by blast
qed

text \<open>
  A run that counts two failures and returns \<open>nil\<close>, and a run that returns the error of
  an unreadable manifest.
\<close>

theorem all_plugins_tolerated_failures_return_nil_witness:
  "ListInstalledPlugins (demo [''broken'', ''missing'']) [] =
     Inr (map_of (map (\<lambda>n. (n, ''v0.1.0'')) [''broken'', ''missing''])) \<and>
   upgrade_loop (demo [''broken'', ''missing'']) True True [''broken'', ''missing''] (init []) =
     (None, \<lparr>world = [],
             out = [Fprintf_Stderr fmt_upgrading [Str ''broken''],
                    Fprintf_Stderr fmt_warning [Str ''broken'', Err (ErrOther ''download failed'')],
                    Fprintf_Stderr fmt_warning [Str ''missing'',
                      Err (ErrNotExist ''no such file or directory'')]],
             nErrors = 2\<rparr>) \<and>
   fst (RunE (demo [''broken'', ''missing'']) [] [] [''broken'', ''missing'']) = None \<and>
   nErrors (snd (RunE (demo [''broken'', ''missing'']) [] [] [''broken'', ''missing''])) = 2 \<and>
   ListInstalledPlugins (demo [''broken'', ''unreadable'']) [] =
     Inr (map_of (map (\<lambda>n. (n, ''v0.1.0'')) [''broken'', ''unreadable''])) \<and>
   fst (RunE (demo [''broken'', ''unreadable'']) [] [] [''broken'', ''unreadable'']) =
     Some (Wrapf (ErrOther ''permission denied'')
             ''failed to load the plugin manifest for plugin %s'' [''unreadable'']) \<and>
   (\<exists>n e w'. n \<in> set [''broken'', ''unreadable''] \<and>
      LoadPluginByName (demo [''broken'', ''unreadable'']) w' n = Inl e \<and> \<not> os_IsNotExist e \<and>
      Wrapf (ErrOther ''permission denied'')
        ''failed to load the plugin manifest for plugin %s'' [''unreadable''] =
      Wrapf e ''failed to load the plugin manifest for plugin %s'' [n])"
proof -
  let ?c = "demo [''broken'', ''missing'']"
  let ?S = "\<lparr>world = [],
             out = [Fprintf_Stderr fmt_upgrading [Str ''broken''],
                    Fprintf_Stderr fmt_warning [Str ''broken'', Err (ErrOther ''download failed'')],
                    Fprintf_Stderr fmt_warning [Str ''missing'',
                      Err (ErrNotExist ''no such file or directory'')]],
             nErrors = 2\<rparr>"
  let ?E = "Wrapf (ErrOther ''permission denied'')
             ''failed to load the plugin manifest for plugin %s'' [''unreadable'']"
  have inst: "ListInstalledPlugins ?c [] =
      Inr (map_of (map (\<lambda>n. (n, ''v0.1.0'')) [''broken'', ''missing'']))"
    by (simp add: demo_def)
  have l: "upgrade_loop ?c True True [''broken'', ''missing''] (init []) = (None, ?S)"
    by (simp add: demo_def loop_body_def on_error_def emit_def init_def)
  from all_plugins_tolerated_failures_return_nil [OF inst, of "[''broken'', ''missing'']"] l
  have r: "RunE ?c [] [] [''broken'', ''missing''] = (None, summary ?S)"
    by blast
  let ?d = "demo [''broken'', ''unreadable'']"
  have inst': "ListInstalledPlugins ?d [] =
      Inr (map_of (map (\<lambda>n. (n, ''v0.1.0'')) [''broken'', ''unreadable'']))"
    by (simp add: demo_def)
  have f: "fst (RunE ?d [] [] [''broken'', ''unreadable'']) = Some ?E"
    by (simp add: run_defs)
  from all_plugins_tolerated_failures_return_nil [OF inst', of "[''broken'', ''unreadable'']"] f
  have e: "\<exists>n e w'. n \<in> set [''broken'', ''unreadable''] \<and>
      LoadPluginByName ?d w' n = Inl e \<and> \<not> os_IsNotExist e \<and>
      ?E = Wrapf e ''failed to load the plugin manifest for plugin %s'' [n]"
    by blast
  from r have "fst (RunE ?c [] [] [''broken'', ''missing'']) = None"
    "nErrors (snd (RunE ?c [] [] [''broken'', ''missing''])) = 2"
    by (simp_all add: summary_def emit_def)
  with inst inst' l f e show ?thesis by blast
qed

subsection \<open>Explicit names: processed as given\<close>

lemma names_of_append [simp]: "names_of f (xs @ ys) = names_of f xs @ names_of f ys"
  by (simp add: names_of_def)

lemma names_of_Nil [simp]: "names_of f [] = []"
  by (simp add: names_of_def)

lemma names_of_upgraded_report:
  "names_of fmt_upgrading (upgraded_report (n, p)) = [n]"
  "names_of fmt_upgraded (upgraded_report (n, p)) = [n]"
  by (simp_all add: names_of_def upgraded_report_def fmt_upgrading_def fmt_upgraded_def)

lemma loop_body_explicit_Return:
  "loop_body c False False n s = Return e s' \<Longrightarrow>
   out s' = out s \<or> out s' = out s @ [Fprintf_Stderr fmt_upgrading [Str n]]"
  by (auto simp: loop_body_def on_error_def emit_def Let_def
           split: sum.splits if_splits prod.splits option.splits)

lemma explicit_names_reported:
  "upgrade_loop c False False ns s = (r, s') \<Longrightarrow>
   \<exists>d d'. prefix d ns \<and> prefix d' ns \<and>
     names_of fmt_upgrading (out s') = names_of fmt_upgrading (out s) @ d \<and>
     names_of fmt_upgraded (out s') = names_of fmt_upgraded (out s) @ d' \<and>
     (r = None \<longrightarrow> d = ns \<and> d' = ns)"
proof (induction ns arbitrary: s)
  case Nil
  then show ?case by simp
next
  case (Cons n ns)
  show ?case
  proof (cases "loop_body c False False n s")
    case (Continue s1)
    with Cons.prems have l: "upgrade_loop c False False ns s1 = (r, s')" by simp
    from loop_body_explicit_Continue [OF Continue] obtain p where
      p: "out s1 = out s @ upgraded_report (n, p)" by blast
    from Cons.IH [OF l] obtain d d' where
      "prefix d ns" "prefix d' ns"
      "names_of fmt_upgrading (out s') = names_of fmt_upgrading (out s1) @ d"
      "names_of fmt_upgraded (out s') = names_of fmt_upgraded (out s1) @ d'"
      "r = None \<longrightarrow> d = ns \<and> d' = ns" by blast
    then show ?thesis
      by (intro exI [of _ "n # d"] exI [of _ "n # d'"])
         (simp add: p names_of_upgraded_report)
  next
    case (Return e s1)
    with Cons.prems have eq: "s' = s1" "r = Some e" by simp_all
    from loop_body_explicit_Return [OF Return]
    have d: "names_of fmt_upgrading (out s1) = names_of fmt_upgrading (out s) @ [] \<or>
          names_of fmt_upgrading (out s1) = names_of fmt_upgrading (out s) @ [n]"
      and u: "names_of fmt_upgraded (out s1) = names_of fmt_upgraded (out s) @ []"
      by (auto simp: names_of_def fmt_upgrading_def fmt_upgraded_def)
    from d show ?thesis
    proof
      assume "names_of fmt_upgrading (out s1) = names_of fmt_upgrading (out s) @ []"
      with u show ?thesis
        unfolding eq by (intro exI [of _ "[]"]) simp
    next
      assume "names_of fmt_upgrading (out s1) = names_of fmt_upgrading (out s) @ [n]"
      with u show ?thesis
        unfolding eq by (intro exI [of _ "[n]"] exI [of _ "[]"]) simp
    qed
  qed
qed

lemma loop_body_ignores_receipts:
  "loop_body (c\<lparr>ListInstalledPlugins := f\<rparr>) i k n s = loop_body c i k n s"
  by (simp add: loop_body_def Let_def split: sum.splits)

lemma upgrade_loop_ignores_receipts:
  "upgrade_loop (c\<lparr>ListInstalledPlugins := f\<rparr>) i k ns s = upgrade_loop c i k ns s"
  by (induction ns arbitrary: s) (simp_all add: loop_body_ignores_receipts split: flow.splits)

text \<open>
  Claim C8. With a non-empty argument list, the names to process are the arguments as
  given, and the run is the same whatever \<open>ListInstalledPlugins\<close> would return. The names
  of the lines "Upgrading plugin", in the order written, are a prefix of the arguments, and
  so are the names of the lines "Upgraded plugin"; when the command returns \<open>nil\<close> both are
  the whole argument list, duplicates included.
\<close>

theorem explicit_names_verbatim_in_order:
  assumes ne: "args \<noteq> []" and run: "RunE c w args ks = (r, s)"
  shows "resolve c w args ks = Inr (args, False, False) \<and>
         (\<forall>f. RunE (c\<lparr>ListInstalledPlugins := f\<rparr>) w args ks = RunE c w args ks) \<and>
         prefix (names_of fmt_upgrading (out s)) args \<and>
         prefix (names_of fmt_upgraded (out s)) args \<and>
         (r = None \<longrightarrow> names_of fmt_upgrading (out s) = args \<and>
                        names_of fmt_upgraded (out s) = args)"
proof -
  obtain r' s' where l: "upgrade_loop c False False args (init w) = (r', s')" by force
  with run ne have a: "after_loop (r', s') = (r, s)" by (simp add: RunE_explicit)
  then have o: "r = r'" "names_of fmt_upgrading (out s) = names_of fmt_upgrading (out s')"
      "names_of fmt_upgraded (out s) = names_of fmt_upgraded (out s')"
    by (cases r'; auto simp: after_loop_def summary_def emit_def names_of_def)+
  from explicit_names_reported [OF l] have
    "prefix (names_of fmt_upgrading (out s')) args \<and>
     prefix (names_of fmt_upgraded (out s')) args \<and>
     (r' = None \<longrightarrow> names_of fmt_upgrading (out s') = args \<and>
                     names_of fmt_upgraded (out s') = args)"
    by (auto simp: init_def)
  with o ne show ?thesis
    by (simp add: resolve_def RunE_explicit upgrade_loop_ignores_receipts)
qed

text \<open>
  \<open>upgrade foo foo\<close> processes \<open>foo\<close> twice (the second attempt finds it already
  upgraded), and \<open>upgrade b a\<close> upgrades \<open>b\<close> before \<open>a\<close>.
\<close>

theorem explicit_names_verbatim_in_order_witness:
  "[''foo'', ''foo''] \<noteq> [] \<and>
   RunE (demo []) [] [''foo'', ''foo''] [] =
     (Some (Wrapf ErrIsAlreadyUpgraded ''failed to upgrade plugin %q'' [''foo'']),
      \<lparr>world = [''foo''],
       out = [Fprintf_Stderr fmt_upgrading [Str ''foo''],
              Fprintf_Stderr fmt_upgraded [Str ''foo''],
              PrintSecurityNotice ''foo'',
              Fprintf_Stderr fmt_upgrading [Str ''foo'']],
       nErrors = 1\<rparr>) \<and>
   resolve (demo []) [] [''foo'', ''foo''] [] = Inr ([''foo'', ''foo''], False, False) \<and>
   prefix [''foo'', ''foo''] [''foo'', ''foo''] \<and> prefix [''foo''] [''foo'', ''foo''] \<and>
   RunE (demo []) [] [''b'', ''a''] [] =
     (None,
      \<lparr>world = [''a'', ''b''],
       out = [Fprintf_Stderr fmt_upgrading [Str ''b''],
              Fprintf_Stderr fmt_upgraded [Str ''b''],
              PrintSecurityNotice ''b'',
              Fprintf_Stderr fmt_upgrading [Str ''a''],
              Fprintf_Stderr fmt_upgraded [Str ''a''],
              PrintSecurityNotice ''a''],
       nErrors = 0\<rparr>) \<and>
   names_of fmt_upgrading (out (snd (RunE (demo []) [] [''b'', ''a''] []))) = [''b'', ''a''] \<and>
   names_of fmt_upgraded (out (snd (RunE (demo []) [] [''b'', ''a''] []))) = [''b'', ''a'']"
proof -
  let ?S1 = "\<lparr>world = [''foo''],
       out = [Fprintf_Stderr fmt_upgrading [Str ''foo''],
              Fprintf_Stderr fmt_upgraded [Str ''foo''],
              PrintSecurityNotice ''foo'',
              Fprintf_Stderr fmt_upgrading [Str ''foo'']],
       nErrors = 1\<rparr>"
  let ?S2 = "\<lparr>world = [''a'', ''b''],
       out = [Fprintf_Stderr fmt_upgrading [Str ''b''],
              Fprintf_Stderr fmt_upgraded [Str ''b''],
              PrintSecurityNotice ''b'',
              Fprintf_Stderr fmt_upgrading [Str ''a''],
              Fprintf_Stderr fmt_upgraded [Str ''a''],
              PrintSecurityNotice ''a''],
       nErrors = 0\<rparr>"
  have n1: "[''foo'', ''foo''] \<noteq> []" and n2: "[''b'', ''a''] \<noteq> []" by simp_all
  have r1: "RunE (demo []) [] [''foo'', ''foo''] [] =
     (Some (Wrapf ErrIsAlreadyUpgraded ''failed to upgrade plugin %q'' [''foo'']), ?S1)"
    by (simp add: run_defs)
  have r2: "RunE (demo []) [] [''b'', ''a''] [] = (None, ?S2)"
    by (simp add: run_defs)
  have o1: "names_of fmt_upgrading (out ?S1) = [''foo'', ''foo'']"
    "names_of fmt_upgraded (out ?S1) = [''foo'']"
    by (simp_all add: names_of_def fmt_defs)
  from explicit_names_verbatim_in_order [OF n1 r1] o1
  have w1: "resolve (demo []) [] [''foo'', ''foo''] [] = Inr ([''foo'', ''foo''], False, False)"
    "prefix [''foo'', ''foo''] [''foo'', ''foo'']" "prefix [''foo''] [''foo'', ''foo'']"
    by simp_all
  from explicit_names_verbatim_in_order [OF n2 r2]
  have w2: "names_of fmt_upgrading (out ?S2) = [''b'', ''a'']"
    "names_of fmt_upgraded (out ?S2) = [''b'', ''a'']"
    by simp_all
  from n1 r1 r2 w1 w2 show ?thesis by simp
qed

subsection \<open>All plugins: the order is not determined by the installed set\<close>

lemma all_plugins_body_Return:
  "loop_body c True True a s = Return e s1 \<Longrightarrow> out s1 = out s \<and> (\<exists>e0 f. e = Wrapf e0 f [a])"
  by (auto simp: loop_body_def on_error_def emit_def Let_def
           split: sum.splits if_splits prod.splits option.splits)

lemma all_plugins_body_Continue:
  "loop_body c True True a s = Continue s1 \<Longrightarrow>
     \<exists>f as tl. out s1 = out s @ Fprintf_Stderr f (Str a # as) # tl"
  by (auto simp: loop_body_def on_error_def emit_def Let_def
           split: sum.splits if_splits prod.splits option.splits)

lemma after_loop_appends:
  "after_loop (r', s') = (r, s) \<Longrightarrow> r = r' \<and> (\<exists>xs. out s = out s' @ xs)"
  by (cases r') (auto simp: after_loop_def summary_def emit_def split: if_splits)

lemma all_plugins_first_name:
  assumes inst: "ListInstalledPlugins c w = Inr m"
    and run: "RunE c w [] (a # xs) = (r, s)"
  shows "(out s = [] \<and> (\<exists>e f. r = Some (Wrapf e f [a]))) \<or>
         (\<exists>f as tl. out s = Fprintf_Stderr f (Str a # as) # tl)"
proof (cases "loop_body c True True a (init w)")
  case (Return e s1)
  with run have "r = Some e" "s = s1"
    by (simp_all add: RunE_all [OF inst] after_loop_def)
  with all_plugins_body_Return [OF Return] show ?thesis
    by (auto simp: init_def)
next
  case (Continue s1)
  obtain r' s' where l: "upgrade_loop c True True xs s1 = (r', s')" by force
  with run Continue have "after_loop (r', s') = (r, s)"
    by (simp add: RunE_all [OF inst])
  from after_loop_appends [OF this] obtain zs where zs: "out s = out s' @ zs" by blast
  from upgrade_loop_appends [OF l] obtain ys where ys: "out s' = out s1 @ ys" by blast
  from all_plugins_body_Continue [OF Continue] obtain f as tl where
    "out s1 = Fprintf_Stderr f (Str a # as) # tl" by (auto simp: init_def)
  with zs ys have "out s = Fprintf_Stderr f (Str a # as) # (tl @ ys @ zs)" by simp
  then show ?thesis by blast
qed

lemma range_order_starting_with:
  assumes "finite (dom m)" and "a \<in> dom m"
  shows "\<exists>xs. range_order m (a # xs)"
proof -
  from assms(1) have "finite (dom m - {a})" by simp
  from finite_distinct_list [OF this]
  obtain xs where xs: "set xs = dom m - {a}" and d: "distinct xs" by (elim exE conjE)
  from xs assms(2) have "set (a # xs) = dom m" by auto
  moreover from xs d have "distinct (a # xs)" by simp
  ultimately have "range_order m (a # xs)" by (simp only: range_order_def)
  then show ?thesis ..
qed

lemma outcomes_append [simp]: "outcomes (xs @ ys) = outcomes xs @ outcomes ys"
  by (simp add: outcomes_def)

lemma outcomes_Nil [simp]: "outcomes [] = []"
  by (simp add: outcomes_def)

lemma all_plugins_body_outcome:
  "loop_body c True True n s = Continue s1 \<Longrightarrow>
     outcomes (out s1) = outcomes (out s) @ [n] \<and> world s1 = attempt c (world s) n"
  by (auto simp: loop_body_def on_error_def emit_def Let_def attempt_def outcomes_def fmt_defs
           split: sum.splits if_splits prod.splits option.splits)

lemma all_plugins_body_fault:
  "loop_body c True True n s = Return err s1 \<Longrightarrow>
     s1 = s \<and> (\<exists>e. LoadPluginByName c (world s) n = Inl e \<and> \<not> os_IsNotExist e \<and>
        err = Wrapf e ''failed to load the plugin manifest for plugin %s'' [n])"
  by (auto simp: loop_body_def on_error_def emit_def Let_def
           split: sum.splits if_splits prod.splits option.splits)

lemma all_plugins_loop_outcomes:
  "upgrade_loop c True True ns s = (r, s') \<Longrightarrow>
   \<exists>d. prefix d ns \<and> outcomes (out s') = outcomes (out s) @ d \<and>
       world s' = foldl (attempt c) (world s) d \<and>
       (r = None \<longrightarrow> d = ns) \<and>
       (\<forall>err. r = Some err \<longrightarrow> length d < length ns \<and>
          (\<exists>e. LoadPluginByName c (world s') (ns ! length d) = Inl e \<and> \<not> os_IsNotExist e \<and>
             err = Wrapf e ''failed to load the plugin manifest for plugin %s'' [ns ! length d]))"
proof (induction ns arbitrary: s)
  case Nil
  then show ?case by simp
next
  case (Cons n ns)
  show ?case
  proof (cases "loop_body c True True n s")
    case (Continue s1)
    with Cons.prems have l: "upgrade_loop c True True ns s1 = (r, s')" by simp
    from all_plugins_body_outcome [OF Continue]
    have b: "outcomes (out s1) = outcomes (out s) @ [n]" "world s1 = attempt c (world s) n"
      by simp_all
    from Cons.IH [OF l] obtain d where d: "prefix d ns"
      "outcomes (out s') = outcomes (out s1) @ d"
      "world s' = foldl (attempt c) (world s1) d"
      "r = None \<longrightarrow> d = ns"
      "\<forall>err. r = Some err \<longrightarrow> length d < length ns \<and>
          (\<exists>e. LoadPluginByName c (world s') (ns ! length d) = Inl e \<and> \<not> os_IsNotExist e \<and>
             err = Wrapf e ''failed to load the plugin manifest for plugin %s'' [ns ! length d])"
      by blast
    show ?thesis
      by (rule exI [of _ "n # d"]) (use d b in simp)
  next
    case (Return err s1)
    with Cons.prems have eq: "r = Some err" "s' = s1" by simp_all
    from all_plugins_body_fault [OF Return] eq
    show ?thesis
      by (intro exI [of _ "[]"]) auto
  qed
qed

lemma after_loop_outcomes:
  "after_loop (r', s') = (r, s) \<Longrightarrow>
   r = r' \<and> outcomes (out s) = outcomes (out s') \<and> world s = world s'"
  by (cases r') (auto simp: after_loop_def summary_def emit_def outcomes_def split: if_splits)

lemma all_plugins_run_outcomes:
  assumes inst: "ListInstalledPlugins c w = Inr m" and run: "RunE c w [] ks = (r, s)"
  shows "prefix (outcomes (out s)) ks \<and>
         world s = foldl (attempt c) w (outcomes (out s)) \<and>
         (r = None \<longrightarrow> outcomes (out s) = ks) \<and>
         (\<forall>err. r = Some err \<longrightarrow> length (outcomes (out s)) < length ks \<and>
            (\<exists>e. \<not> os_IsNotExist e \<and>
               err = Wrapf e ''failed to load the plugin manifest for plugin %s''
                       [ks ! length (outcomes (out s))]))"
proof -
  obtain r' s' where l: "upgrade_loop c True True ks (init w) = (r', s')" by force
  with run have "after_loop (r', s') = (r, s)" by (simp add: RunE_all [OF inst])
  from after_loop_outcomes [OF this]
  have eq: "r = r'" "outcomes (out s) = outcomes (out s')" "world s = world s'" by simp_all
  from all_plugins_loop_outcomes [OF l] obtain d where d: "prefix d ks"
    "outcomes (out s') = d" "world s' = foldl (attempt c) w d" "r' = None \<longrightarrow> d = ks"
    "\<forall>err. r' = Some err \<longrightarrow> length d < length ks \<and>
          (\<exists>e. LoadPluginByName c (world s') (ks ! length d) = Inl e \<and> \<not> os_IsNotExist e \<and>
             err = Wrapf e ''failed to load the plugin manifest for plugin %s'' [ks ! length d])"
    by (auto simp: init_def)
  from d(5) have "\<forall>err. r' = Some err \<longrightarrow> length d < length ks \<and>
          (\<exists>e. \<not> os_IsNotExist e \<and>
             err = Wrapf e ''failed to load the plugin manifest for plugin %s'' [ks ! length d])"
    by blast
  with d(1-4) show ?thesis unfolding eq by simp
qed

lemma all_plugins_no_fault_returns_nil:
  assumes inst: "ListInstalledPlugins c w = Inr m"
    and ok: "\<forall>w' n e. n \<in> set ks \<longrightarrow> LoadPluginByName c w' n = Inl e \<longrightarrow> os_IsNotExist e"
  shows "fst (RunE c w [] ks) = None"
proof (cases "fst (RunE c w [] ks)")
  case None
  then show ?thesis .
next
  case (Some err)
  obtain r' s' where l: "upgrade_loop c True True ks (init w) = (r', s')" by force
  with Some have "r' = Some err"
    by (cases r') (simp_all add: RunE_all [OF inst] after_loop_def)
  with l all_plugins_return_is_lookup_fault [of c ks "init w" err s'] ok
  show ?thesis by blast
qed

text \<open>
  Claim C10. The command is called without arguments and the enumeration succeeds;
  \<open>ks\<close> is the order in which \<open>range\<close> visits the installed map. In every such run the names
  on the outcome lines are a prefix of \<open>ks\<close>, in that order, and the final file system is
  the result of attempting those names in that order; when the command returns \<open>nil\<close> the
  outcome lines name the whole of \<open>ks\<close>, and when it returns an error the error is the
  unreadable manifest of the next name of \<open>ks\<close>. If the installed map is finite and has two
  different names, there are two different orders in which \<open>range\<close> can visit it, both
  listing exactly the names of the map, for which the command, in the same file system,
  differs in the error it returns or in what it writes; and when no manifest of an installed
  name is unreadable, both runs return \<open>nil\<close> and report all the installed plugins, each in
  its own order. With a non-empty argument list the run does not depend on the order of
  \<open>range\<close>.
\<close>

theorem all_plugins_order_not_determined:
  "(ListInstalledPlugins c w = Inr m \<longrightarrow> RunE c w [] ks = (r, s) \<longrightarrow>
      prefix (outcomes (out s)) ks \<and>
      world s = foldl (attempt c) w (outcomes (out s)) \<and>
      (r = None \<longrightarrow> outcomes (out s) = ks) \<and>
      (\<forall>err. r = Some err \<longrightarrow> length (outcomes (out s)) < length ks \<and>
         (\<exists>e. \<not> os_IsNotExist e \<and>
            err = Wrapf e ''failed to load the plugin manifest for plugin %s''
                    [ks ! length (outcomes (out s))]))) \<and>
   (ListInstalledPlugins c w = Inr m \<longrightarrow> finite (dom m) \<longrightarrow>
      a \<in> dom m \<longrightarrow> b \<in> dom m \<longrightarrow> a \<noteq> b \<longrightarrow>
      (\<exists>ks ks'. range_order m ks \<and> range_order m ks' \<and> ks \<noteq> ks' \<and>
         (fst (RunE c w [] ks), out (snd (RunE c w [] ks))) \<noteq>
         (fst (RunE c w [] ks'), out (snd (RunE c w [] ks'))) \<and>
         ((\<forall>w' n e. n \<in> dom m \<longrightarrow> LoadPluginByName c w' n = Inl e \<longrightarrow> os_IsNotExist e) \<longrightarrow>
            fst (RunE c w [] ks) = None \<and> fst (RunE c w [] ks') = None \<and>
            outcomes (out (snd (RunE c w [] ks))) = ks \<and>
            outcomes (out (snd (RunE c w [] ks'))) = ks'))) \<and>
   (args \<noteq> [] \<longrightarrow> RunE c w args ks1 = RunE c w args ks2)"
proof (intro conjI impI)
  assume inst: "ListInstalledPlugins c w = Inr m" and run: "RunE c w [] ks = (r, s)"
  note o = all_plugins_run_outcomes [OF inst run]
  from o show "prefix (outcomes (out s)) ks" by blast
  from o show "world s = foldl (attempt c) w (outcomes (out s))" by blast
  from o show "\<forall>err. r = Some err \<longrightarrow> length (outcomes (out s)) < length ks \<and>
         (\<exists>e. \<not> os_IsNotExist e \<and>
            err = Wrapf e ''failed to load the plugin manifest for plugin %s''
                    [ks ! length (outcomes (out s))])" by blast
  assume "r = None"
  with o show "outcomes (out s) = ks" by blast
next
  assume inst: "ListInstalledPlugins c w = Inr m" and fin: "finite (dom m)"
    and a: "a \<in> dom m" and b: "b \<in> dom m" and ab: "a \<noteq> b"
  from range_order_starting_with [OF fin a] obtain xs where xs: "range_order m (a # xs)" ..
  from range_order_starting_with [OF fin b] obtain ys where ys: "range_order m (b # ys)" ..
  obtain r s where ra: "RunE c w [] (a # xs) = (r, s)" by force
  obtain r' s' where rb: "RunE c w [] (b # ys) = (r', s')" by force
  have "(r, out s) \<noteq> (r', out s')"
  proof
    assume "(r, out s) = (r', out s')"
    then have eq: "r' = r" "out s' = out s" by simp_all
    from all_plugins_first_name [OF inst ra] show False
    proof (elim disjE conjE exE)
      fix e f
      assume 1: "out s = []" "r = Some (Wrapf e f [a])"
      from all_plugins_first_name [OF inst rb] ab show False
        unfolding eq 1 by auto
    next
      fix f as tl
      assume 1: "out s = Fprintf_Stderr f (Str a # as) # tl"
      from all_plugins_first_name [OF inst rb] ab show False
        unfolding eq 1 by auto
    qed
  qed
  with ra rb have diff: "(fst (RunE c w [] (a # xs)), out (snd (RunE c w [] (a # xs)))) \<noteq>
         (fst (RunE c w [] (b # ys)), out (snd (RunE c w [] (b # ys))))" by simp
  have full: "fst (RunE c w [] (a # xs)) = None \<and> fst (RunE c w [] (b # ys)) = None \<and>
            outcomes (out (snd (RunE c w [] (a # xs)))) = a # xs \<and>
            outcomes (out (snd (RunE c w [] (b # ys)))) = b # ys"
    if ok: "\<forall>w' n e. n \<in> dom m \<longrightarrow> LoadPluginByName c w' n = Inl e \<longrightarrow> os_IsNotExist e"
  proof -
    from xs ys have sets: "set (a # xs) = dom m" "set (b # ys) = dom m"
      by (simp_all add: range_order_def)
    from ok sets have
      oa: "\<forall>w' n e. n \<in> set (a # xs) \<longrightarrow> LoadPluginByName c w' n = Inl e \<longrightarrow> os_IsNotExist e"
      and ob: "\<forall>w' n e. n \<in> set (b # ys) \<longrightarrow> LoadPluginByName c w' n = Inl e \<longrightarrow> os_IsNotExist e"
      by simp_all
    have n: "fst (RunE c w [] (a # xs)) = None" "fst (RunE c w [] (b # ys)) = None"
      by (rule all_plugins_no_fault_returns_nil [OF inst oa])
         (rule all_plugins_no_fault_returns_nil [OF inst ob])
    with ra rb have "r = None" "r' = None" by simp_all
    with all_plugins_run_outcomes [OF inst ra] all_plugins_run_outcomes [OF inst rb]
    have "outcomes (out s) = a # xs" "outcomes (out s') = b # ys" by blast+
    with n ra rb show ?thesis by simp
  qed
  from ab have ne: "a # xs \<noteq> b # ys" by simp
  show "\<exists>ks ks'. range_order m ks \<and> range_order m ks' \<and> ks \<noteq> ks' \<and>
         (fst (RunE c w [] ks), out (snd (RunE c w [] ks))) \<noteq>
         (fst (RunE c w [] ks'), out (snd (RunE c w [] ks'))) \<and>
         ((\<forall>w' n e. n \<in> dom m \<longrightarrow> LoadPluginByName c w' n = Inl e \<longrightarrow> os_IsNotExist e) \<longrightarrow>
            fst (RunE c w [] ks) = None \<and> fst (RunE c w [] ks') = None \<and>
            outcomes (out (snd (RunE c w [] ks))) = ks \<and>
            outcomes (out (snd (RunE c w [] ks'))) = ks')"
    by (intro exI [of _ "a # xs"] exI [of _ "b # ys"] conjI impI xs ys ne diff)
       (use full in blast)+
next
  assume "args \<noteq> []"
  then show "RunE c w args ks1 = RunE c w args ks2" by (simp add: RunE_explicit)
qed

text \<open>
  The plugins \<open>a\<close> and \<open>b\<close> are installed: the run that visits \<open>a\<close> first and the run that
  visits \<open>b\<close> first upgrade and report the same two plugins in opposite orders.
\<close>

theorem all_plugins_order_not_determined_witness:
  "ListInstalledPlugins (demo [''a'', ''b'']) [] =
     Inr (map_of (map (\<lambda>n. (n, ''v0.1.0'')) [''a'', ''b''])) \<and>
   range_order (map_of (map (\<lambda>n. (n, ''v0.1.0'')) [''a'', ''b''])) [''a'', ''b''] \<and>
   range_order (map_of (map (\<lambda>n. (n, ''v0.1.0'')) [''a'', ''b''])) [''b'', ''a''] \<and>
   RunE (demo [''a'', ''b'']) [] [] [''a'', ''b''] =
     (None,
      \<lparr>world = [''b'', ''a''],
       out = [Fprintf_Stderr fmt_upgrading [Str ''a''],
              Fprintf_Stderr fmt_upgraded [Str ''a''],
              PrintSecurityNotice ''a'',
              Fprintf_Stderr fmt_upgrading [Str ''b''],
              Fprintf_Stderr fmt_upgraded [Str ''b''],
              PrintSecurityNotice ''b''],
       nErrors = 0\<rparr>) \<and>
   RunE (demo [''a'', ''b'']) [] [] [''b'', ''a''] =
     (None,
      \<lparr>world = [''a'', ''b''],
       out = [Fprintf_Stderr fmt_upgrading [Str ''b''],
              Fprintf_Stderr fmt_upgraded [Str ''b''],
              PrintSecurityNotice ''b'',
              Fprintf_Stderr fmt_upgrading [Str ''a''],
              Fprintf_Stderr fmt_upgraded [Str ''a''],
              PrintSecurityNotice ''a''],
       nErrors = 0\<rparr>) \<and>
   outcomes (out (snd (RunE (demo [''a'', ''b'']) [] [] [''a'', ''b'']))) = [''a'', ''b''] \<and>
   outcomes (out (snd (RunE (demo [''a'', ''b'']) [] [] [''b'', ''a'']))) = [''b'', ''a''] \<and>
   world (snd (RunE (demo [''a'', ''b'']) [] [] [''a'', ''b''])) =
     foldl (attempt (demo [''a'', ''b''])) [] [''a'', ''b''] \<and>
   world (snd (RunE (demo [''a'', ''b'']) [] [] [''b'', ''a''])) =
     foldl (attempt (demo [''a'', ''b''])) [] [''b'', ''a''] \<and>
   (\<exists>ks ks'. range_order (map_of (map (\<lambda>n. (n, ''v0.1.0'')) [''a'', ''b''])) ks \<and>
      range_order (map_of (map (\<lambda>n. (n, ''v0.1.0'')) [''a'', ''b''])) ks' \<and> ks \<noteq> ks' \<and>
      fst (RunE (demo [''a'', ''b'']) [] [] ks) = None \<and>
      fst (RunE (demo [''a'', ''b'']) [] [] ks') = None \<and>
      outcomes (out (snd (RunE (demo [''a'', ''b'']) [] [] ks))) = ks \<and>
      outcomes (out (snd (RunE (demo [''a'', ''b'']) [] [] ks'))) = ks') \<and>
   RunE (demo [''a'', ''b'']) [] [''b'', ''a''] [''a'', ''b''] =
   RunE (demo [''a'', ''b'']) [] [''b'', ''a''] [''b'', ''a'']"
proof -
  let ?c = "demo [''a'', ''b'']"
  let ?m = "map_of (map (\<lambda>n. (n, ''v0.1.0'')) [''a'', ''b''])"
  let ?Sab = "\<lparr>world = [''b'', ''a''],
       out = [Fprintf_Stderr fmt_upgrading [Str ''a''],
              Fprintf_Stderr fmt_upgraded [Str ''a''],
              PrintSecurityNotice ''a'',
              Fprintf_Stderr fmt_upgrading [Str ''b''],
              Fprintf_Stderr fmt_upgraded [Str ''b''],
              PrintSecurityNotice ''b''],
       nErrors = 0\<rparr>"
  let ?Sba = "\<lparr>world = [''a'', ''b''],
       out = [Fprintf_Stderr fmt_upgrading [Str ''b''],
              Fprintf_Stderr fmt_upgraded [Str ''b''],
              PrintSecurityNotice ''b'',
              Fprintf_Stderr fmt_upgrading [Str ''a''],
              Fprintf_Stderr fmt_upgraded [Str ''a''],
              PrintSecurityNotice ''a''],
       nErrors = 0\<rparr>"
  have inst: "ListInstalledPlugins ?c [] = Inr ?m"
    by (simp add: demo_def)
  have fin: "finite (dom ?m)" and a: "''a'' \<in> dom ?m" and b: "''b'' \<in> dom ?m"
    and ab: "''a'' \<noteq> ''b''" and ne: "[''b'', ''a''] \<noteq> []"
    by simp_all
  have ro: "range_order ?m [''a'', ''b'']" "range_order ?m [''b'', ''a'']"
    by (auto simp: range_order_def)
  have ok: "\<forall>w' n e. n \<in> dom ?m \<longrightarrow> LoadPluginByName ?c w' n = Inl e \<longrightarrow> os_IsNotExist e"
    by (auto simp: demo_def)
  have rab: "RunE ?c [] [] [''a'', ''b''] = (None, ?Sab)"
    and rba: "RunE ?c [] [] [''b'', ''a''] = (None, ?Sba)"
    by (simp_all add: run_defs)
  note ab_run = all_plugins_order_not_determined [where c = ?c and w = "[]" and m = ?m
      and ks = "[''a'', ''b'']" and r = None and s = ?Sab
      and a = "''a''" and b = "''b''" and args = "[''b'', ''a'']"
      and ?ks1.0 = "[''a'', ''b'']" and ?ks2.0 = "[''b'', ''a'']"]
  note ba_run = all_plugins_order_not_determined [where c = ?c and w = "[]" and m = ?m
      and ks = "[''b'', ''a'']" and r = None and s = ?Sba
      and a = "''a''" and b = "''b''" and args = "[''b'', ''a'']"
      and ?ks1.0 = "[''a'', ''b'']" and ?ks2.0 = "[''b'', ''a'']"]
  from ab_run inst rab
  have oab: "outcomes (out ?Sab) = [''a'', ''b'']"
    "world ?Sab = foldl (attempt ?c) [] (outcomes (out ?Sab))"
    by blast+
  from ba_run inst rba
  have oba: "outcomes (out ?Sba) = [''b'', ''a'']"
    "world ?Sba = foldl (attempt ?c) [] (outcomes (out ?Sba))"
    by blast+
  from ab_run inst fin a b ab ok
  have ex: "\<exists>ks ks'. range_order ?m ks \<and> range_order ?m ks' \<and> ks \<noteq> ks' \<and>
      fst (RunE ?c [] [] ks) = None \<and> fst (RunE ?c [] [] ks') = None \<and>
      outcomes (out (snd (RunE ?c [] [] ks))) = ks \<and>
      outcomes (out (snd (RunE ?c [] [] ks'))) = ks'"
    by blast
  from ab_run ne
  have ind: "RunE ?c [] [''b'', ''a''] [''a'', ''b''] = RunE ?c [] [''b'', ''a''] [''b'', ''a'']"
    by blast
  from oab oba have w: "world ?Sab = foldl (attempt ?c) [] [''a'', ''b'']"
    "world ?Sba = foldl (attempt ?c) [] [''b'', ''a'']"
    by simp_all
  show ?thesis
    by (intro conjI inst ro ex ind) (simp_all only: rab rba snd_conv oab oba w)
qed

end
